theory Spec2Isabelle
  imports Main "HOL-Library.Sublist" "HOL-Library.AList"
begin

section \<open>JavaScript values\<close>

text \<open>
  Strings are lists of 8-bit characters: the texts whose UTF-16 code units lie between
  0 and 255. An optional argument or field (\<open>x?: T\<close>) is an \<open>option\<close>, \<open>None\<close> standing for
  \<open>undefined\<close>. What is thrown is an \<open>Error\<close> with a message, a value of type \<open>exn\<close>; an
  asynchronous operation on the outside world \<open>'w\<close> returns either the thrown error or
  its value, together with the world it leaves behind.
\<close>

datatype exn = JsError string

type_synonym ('w, 'a) io = "'w \<Rightarrow> (exn + 'a) \<times> 'w"

text \<open>
  The text a template literal gives for a caught error, \<open>`${error}`\<close>: the name \<open>Error\<close>,
  followed by a colon and the message unless the message is empty.
\<close>

fun error_string :: "exn \<Rightarrow> string" where
  "error_string (JsError message) = (if message = [] then ''Error'' else ''Error: '' @ message)"

text \<open>Truthiness of an optional boolean and of an optional string.\<close>

definition truthy :: "bool option \<Rightarrow> bool" where
  "truthy b = (b = Some True)"

definition truthy_string :: "string option \<Rightarrow> bool" where
  "truthy_string s = (case s of None \<Rightarrow> False | Some t \<Rightarrow> t \<noteq> [])"

text \<open>\<open>a || b\<close> on optional booleans: the left operand when it is truthy, else the right.\<close>

definition js_or :: "bool option \<Rightarrow> bool option \<Rightarrow> bool option" where
  "js_or a b = (if truthy a then a else b)"

text \<open>A value of type \<open>string | undefined\<close> inside a template literal.\<close>

definition template_string :: "string option \<Rightarrow> string" where
  "template_string s = (case s of None \<Rightarrow> ''undefined'' | Some t \<Rightarrow> t)"

text \<open>
  A non-negative whole number inside a template literal: its decimal digits (a number
  below \<open>10^21\<close>, which JavaScript prints in full).
\<close>

definition digit_char :: "nat \<Rightarrow> char" where
  "digit_char d = char_of (48 + d)"

function decimal :: "nat \<Rightarrow> string" where
  "decimal n = (if n < 10 then [digit_char n] else decimal (n div 10) @ [digit_char (n mod 10)])"
  by pat_completeness auto
termination
  by (relation "measure (\<lambda>n. n)") auto

declare decimal.simps [simp del]

definition template_number :: "nat option \<Rightarrow> string" where
  "template_number n = (case n of None \<Rightarrow> ''undefined'' | Some k \<Rightarrow> decimal k)"

text \<open>
  \<open>s.trim()\<close>: white space and line terminators are removed from both ends. Among the
  code units 0 to 255 these are tab, line feed, vertical tab, form feed, carriage
  return, space and the no-break space U+00A0.
\<close>

definition is_space :: "char \<Rightarrow> bool" where
  "is_space c = (of_char c \<in> {9, 10, 11, 12, 13, 32, 160 :: nat})"

definition trim :: "string \<Rightarrow> string" where
  "trim s = rev (dropWhile is_space (rev (dropWhile is_space s)))"

text \<open>The digits \<open>0\<close> to \<open>9\<close>.\<close>

definition is_digit :: "char \<Rightarrow> bool" where
  "is_digit c = (48 \<le> (of_char c :: nat) \<and> (of_char c :: nat) \<le> 57)"

section \<open>The command record\<close>

text \<open>
  Modelled from the spec: the Command record of the tmux module (section 3 of the
  specification); the module that declares it is not among the sources. The handlers
  below read \<open>status\<close>, \<open>exitCode\<close>, \<open>command\<close>, \<open>result\<close> and \<open>startTime\<close>.
  \<open>startTime\<close> is a timestamp in milliseconds. The fields \<open>id\<close>, \<open>paneId\<close>, \<open>command\<close> and
  \<open>rawMode\<close> carry the suffix \<open>_c\<close>, the handlers' arguments having the same names; the
  status \<open>error\<close> is the constructor \<open>Failed\<close>.
\<close>

datatype status = Pending | Completed | Failed

fun status_string :: "status \<Rightarrow> string" where
  "status_string Pending = ''pending''"
| "status_string Completed = ''completed''"
| "status_string Failed = ''error''"

record tmux_command =
  id_c :: string
  paneId_c :: string
  command_c :: string
  startTime :: int
  status :: status
  exitCode :: "nat option"
  result :: "string option"
  rawMode_c :: bool

section \<open>Tool and resource results\<close>

text \<open>
  A tool returns \<open>{content: [{type: "text", text}], isError?}\<close>; a resource read returns
  \<open>{contents: [{uri, text}]}\<close>; a resource listing returns \<open>{resources: [{name, uri,
  description}]}\<close>.
\<close>

record tool_result =
  content_text :: string
  isError :: bool

record resource_contents =
  contents_uri :: string
  contents_text :: string

record resource_entry =
  entry_name :: string
  entry_uri :: string
  entry_description :: string

text \<open>
  A variable of a resource URI template is a string or an array of strings; the read
  handlers take \<open>Array.isArray(v) ? v[0] : v\<close>, which is \<open>undefined\<close> on an empty array.
\<close>

datatype variable = Single string | Many "string list"

fun first_value :: "variable \<Rightarrow> string option" where
  "first_value (Single s) = Some s"
| "first_value (Many []) = None"
| "first_value (Many (s # rest)) = Some s"

section \<open>The execute-command tool\<close>

text \<open>
  The handler of \<open>execute-command\<close>, over the tmux module's \<open>executeCommand\<close>.
\<close>

definition execute_command_tool ::
  "(string \<Rightarrow> string \<Rightarrow> bool option \<Rightarrow> bool option \<Rightarrow> ('w, string) io) \<Rightarrow>
   string \<Rightarrow> string \<Rightarrow> bool option \<Rightarrow> bool option \<Rightarrow> 'w \<Rightarrow> tool_result \<times> 'w" where
  "execute_command_tool executeCommand paneId command rawMode noEnter w =
     (let effectiveRawMode = js_or noEnter rawMode in
      case executeCommand paneId command effectiveRawMode noEnter w of
        (Inl error, w') \<Rightarrow>
          (\<lparr>content_text = ''Error executing command: '' @ error_string error, isError = True\<rparr>, w')
      | (Inr commandId, w') \<Rightarrow>
          if truthy effectiveRawMode then
            (let modeText = (if truthy noEnter then ''Keys sent without Enter''
                             else ''Interactive command started (rawMode)'')
             in (\<lparr>content_text =
                    modeText @ ''.\<newline>\<newline>Status tracking is disabled.\<newline>Use '' @ [CHR 0x27]
                      @ ''capture-pane'' @ [CHR 0x27] @ '' with paneId '' @ [CHR 0x27] @ paneId
                      @ [CHR 0x27] @ '' to verify the command outcome.\<newline>\<newline>Command ID: ''
                      @ commandId,
                  isError = False\<rparr>, w'))
          else
            (let resourceUri = ''tmux://command/'' @ commandId @ ''/result''
             in (\<lparr>content_text =
                    ''Command execution started.\<newline>\<newline>To get results, subscribe to and read resource: ''
                      @ resourceUri @ ''\<newline>\<newline>Status will change from '' @ [CHR 0x27] @ ''pending''
                      @ [CHR 0x27] @ '' to '' @ [CHR 0x27] @ ''completed'' @ [CHR 0x27] @ '' or ''
                      @ [CHR 0x27] @ ''error'' @ [CHR 0x27] @ '' when finished.'',
                  isError = False\<rparr>, w')))"

section \<open>Status requests\<close>

text \<open>
  The rendering shared by the \<open>get-command-result\<close> tool and the command-result
  resource. \<open>toISOString\<close> is the JavaScript \<open>Date\<close> method.
\<close>

definition result_text :: "(int \<Rightarrow> string) \<Rightarrow> tmux_command \<Rightarrow> string" where
  "result_text toISOString command =
     (if status command = Pending then
        (if truthy_string (result command) then
           ''Status: '' @ status_string (status command) @ ''\<newline>Command: '' @ command_c command
             @ ''\<newline>\<newline>--- Message ---\<newline>'' @ template_string (result command)
         else
           ''Command still executing...\<newline>Started: '' @ toISOString (startTime command)
             @ ''\<newline>Command: '' @ command_c command)
      else
        ''Status: '' @ status_string (status command) @ ''\<newline>Exit code: ''
          @ template_number (exitCode command) @ ''\<newline>Command: '' @ command_c command
          @ ''\<newline>\<newline>--- Output ---\<newline>'' @ template_string (result command))"

definition get_command_result_tool ::
  "(string option \<Rightarrow> ('w, tmux_command option) io) \<Rightarrow> (int \<Rightarrow> string) \<Rightarrow>
   string \<Rightarrow> 'w \<Rightarrow> tool_result \<times> 'w" where
  "get_command_result_tool checkCommandStatus toISOString commandId w =
     (case checkCommandStatus (Some commandId) w of
        (Inl error, w') \<Rightarrow>
          (\<lparr>content_text = ''Error retrieving command result: '' @ error_string error,
            isError = True\<rparr>, w')
      | (Inr None, w') \<Rightarrow>
          (\<lparr>content_text = ''Command not found: '' @ commandId, isError = True\<rparr>, w')
      | (Inr (Some command), w') \<Rightarrow>
          (\<lparr>content_text = result_text toISOString command, isError = False\<rparr>, w'))"

definition command_result_read ::
  "(string option \<Rightarrow> ('w, tmux_command option) io) \<Rightarrow> (int \<Rightarrow> string) \<Rightarrow>
   string \<Rightarrow> variable \<Rightarrow> 'w \<Rightarrow> resource_contents \<times> 'w" where
  "command_result_read checkCommandStatus toISOString href commandId w =
     (let commandIdStr = first_value commandId in
      case checkCommandStatus commandIdStr w of
        (Inl error, w') \<Rightarrow>
          (\<lparr>contents_uri = href,
            contents_text = ''Error retrieving command result: '' @ error_string error\<rparr>, w')
      | (Inr None, w') \<Rightarrow>
          (\<lparr>contents_uri = href,
            contents_text = ''Command not found: '' @ template_string commandIdStr\<rparr>, w')
      | (Inr (Some command), w') \<Rightarrow>
          (\<lparr>contents_uri = href, contents_text = result_text toISOString command\<rparr>, w'))"

section \<open>The pane-content resource\<close>

definition pane_content_read ::
  "(string option \<Rightarrow> nat option \<Rightarrow> bool option \<Rightarrow> ('w, string) io) \<Rightarrow>
   string \<Rightarrow> variable \<Rightarrow> 'w \<Rightarrow> resource_contents \<times> 'w" where
  "pane_content_read capturePaneContent href paneId w =
     (let paneIdStr = first_value paneId in
      case capturePaneContent paneIdStr (Some 200) (Some False) w of
        (Inl error, w') \<Rightarrow>
          (\<lparr>contents_uri = href,
            contents_text = ''Error capturing pane content: '' @ error_string error\<rparr>, w')
      | (Inr content, w') \<Rightarrow>
          (\<lparr>contents_uri = href,
            contents_text = (if content \<noteq> [] then content else ''No content captured'')\<rparr>, w'))"

section \<open>The command-result listing\<close>

text \<open>
  The \<open>list\<close> callback of the command-result resource template, over the tmux module's
  \<open>cleanupOldCommands\<close>, \<open>getActiveCommandIds\<close> and \<open>getCommand\<close>.
\<close>

definition command_entry :: "string \<Rightarrow> tmux_command \<Rightarrow> resource_entry" where
  "command_entry ident command =
     \<lparr>entry_name = ''Command: '' @ take 30 (command_c command)
        @ (if length (command_c command) > 30 then ''...'' else []),
      entry_uri = ''tmux://command/'' @ ident @ ''/result'',
      entry_description = ''Execution status: '' @ status_string (status command)\<rparr>"

fun list_entries ::
  "(string \<Rightarrow> 'w \<Rightarrow> tmux_command option) \<Rightarrow> 'w \<Rightarrow> string list \<Rightarrow> resource_entry list" where
  "list_entries getCommand w [] = []"
| "list_entries getCommand w (ident # rest) =
     (case getCommand ident w of
        None \<Rightarrow> list_entries getCommand w rest
      | Some command \<Rightarrow> command_entry ident command # list_entries getCommand w rest)"

definition command_result_list ::
  "(nat \<Rightarrow> 'w \<Rightarrow> 'w) \<Rightarrow> ('w \<Rightarrow> string list) \<Rightarrow> (string \<Rightarrow> 'w \<Rightarrow> tmux_command option) \<Rightarrow>
   'w \<Rightarrow> resource_entry list \<times> 'w" where
  "command_result_list cleanupOldCommands getActiveCommandIds getCommand w =
     (let w' = cleanupOldCommands 10 w
      in (list_entries getCommand w' (getActiveCommandIds w'), w'))"

section \<open>The tmux module\<close>

text \<open>
  The module behind the handlers (marker protocol, registry, lifecycle engine) is not
  among the sources; this section models it from sections 4.1 to 4.4 of the
  specification. Two conditions of its section 7 are left out, none of the properties
  below depending on them: the configuration error for an unsupported shell, raised at
  startup, and the distinct report for a pane that has scrolled past both markers, for
  which the specification gives no criterion.
\<close>

subsection \<open>Text helpers\<close>

text \<open>
  Modelled from the spec: what \<open>parse\<close> needs to read a number and to locate a marker: the
  value of a string of decimal digits, and the index of the first occurrence of a
  pattern in a text.
\<close>

definition digits_value :: "string \<Rightarrow> nat" where
  "digits_value ds = foldl (\<lambda>n c. 10 * n + (of_char c - 48)) 0 ds"

fun indexOf :: "string \<Rightarrow> string \<Rightarrow> nat option" where
  "indexOf p [] = (if p = [] then Some 0 else None)"
| "indexOf p (c # cs) =
     (if prefix p (c # cs) then Some 0 else map_option Suc (indexOf p cs))"

subsection \<open>Shell adapter and marker protocol\<close>

text \<open>
  Modelled from the spec: the shell adapter (section 4.1): the supported shells, and for
  each the idiom that prints the exit status of the command that has just run.
\<close>

datatype shell = Bash | Zsh | Fish

fun exit_status_idiom :: "shell \<Rightarrow> string" where
  "exit_status_idiom Bash = ''$?''"
| "exit_status_idiom Zsh = ''$?''"
| "exit_status_idiom Fish = ''$status''"

text \<open>
  Modelled from the spec: the two markers of section 4.2, \<open><<START:{id}>>\<close> and
  \<open><<END:{id}:{exit code}>>\<close>.
\<close>

definition startMarker :: "string \<Rightarrow> string" where
  "startMarker commandId = ''<<START:'' @ commandId @ ''>>''"

definition endMarkerPrefix :: "string \<Rightarrow> string" where
  "endMarkerPrefix commandId = ''<<END:'' @ commandId @ '':''"

definition endMarker :: "string \<Rightarrow> string \<Rightarrow> string" where
  "endMarker commandId exitStatus = endMarkerPrefix commandId @ exitStatus @ ''>>''"

text \<open>
  Modelled from the spec: \<open>buildWrapped\<close> (section 4.2): print the start marker, run the
  command, print the end marker with the shell's exit-status idiom in it; the statements
  are joined by the shell's separator and the line ends with a newline.
\<close>

definition buildWrapped :: "string \<Rightarrow> string \<Rightarrow> shell \<Rightarrow> string" where
  "buildWrapped commandId commandText sh =
     ''echo '' @ [CHR 0x22] @ startMarker commandId @ [CHR 0x22] @ ''; '' @ commandText
       @ ''; echo '' @ [CHR 0x22] @ endMarker commandId (exit_status_idiom sh) @ [CHR 0x22]
       @ ''\<newline>''"

text \<open>
  Modelled from the spec: the result of \<open>parse\<close>, \<open>{found, output?, exitCode?}\<close>, and the result
  that reports nothing found.
\<close>

record parsed =
  parsed_found :: bool
  parsed_output :: "string option"
  parsed_exitCode :: "nat option"

definition not_found :: parsed where
  "not_found = \<lparr>parsed_found = False, parsed_output = None, parsed_exitCode = None\<rparr>"

text \<open>
  Modelled from the spec: \<open>parse\<close> (section 4.2). The start marker of this identifier is
  located, then the end marker after it; the output is the text strictly between them,
  trimmed; the exit code is the numeric token inside the end marker. With the start
  marker only, or with an end marker that carries no number, the command counts as
  still running.
\<close>

definition parse :: "string \<Rightarrow> string \<Rightarrow> parsed" where
  "parse captured commandId =
     (case indexOf (startMarker commandId) captured of
        None \<Rightarrow> not_found
      | Some i \<Rightarrow>
          (let rest = drop (i + length (startMarker commandId)) captured in
           case indexOf (endMarkerPrefix commandId) rest of
             None \<Rightarrow> not_found
           | Some j \<Rightarrow>
               (let after = drop (j + length (endMarkerPrefix commandId)) rest;
                    digits = takeWhile is_digit after
                in if digits \<noteq> [] \<and> prefix ''>>'' (dropWhile is_digit after)
                   then \<lparr>parsed_found = True, parsed_output = Some (trim (take j rest)),
                         parsed_exitCode = Some (digits_value digits)\<rparr>
                   else not_found)))"

subsection \<open>Registry and lifecycle engine\<close>

text \<open>
  Modelled from the spec: what the pane capture port (section 6) is asked to send, by
  \<open>sendText\<close> or by \<open>sendRawKeys\<close>.
\<close>

datatype keys = SendText string | SendRawKeys string

text \<open>
  Modelled from the spec: the process-wide state. \<open>commands\<close> is the registry in
  insertion order, \<open>issued\<close> counts the identifiers allocated so far, \<open>clock\<close> is the
  current time in milliseconds, \<open>captureLines\<close> is the trailing window a status check
  captures. The pane capture port (section 6) is the environment: \<open>capture\<close> answers
  \<open>capture(paneId, maxLines, includeColor)\<close>, \<open>deliver\<close> says whether a send fails, and
  \<open>sent\<close> records what has been sent.
\<close>

record world =
  commands :: "(string \<times> tmux_command) list"
  issued :: nat
  clock :: int
  shellType :: shell
  captureLines :: nat
  capture :: "string \<Rightarrow> nat \<Rightarrow> bool \<Rightarrow> exn + string"
  deliver :: "string \<Rightarrow> keys \<Rightarrow> exn option"
  sent :: "(string \<times> keys) list"

text \<open>
  Modelled from the spec: the advisory message a raw-mode command holds as its result
  (section 3).
\<close>

definition advisory :: string where
  "advisory = ''raw mode - tracking disabled''"

text \<open>
  Modelled from the spec: \<open>execute\<close> (section 4.4), called \<open>executeCommand\<close> by the
  handlers. Identifiers are \<open>c1\<close>, \<open>c2\<close>, ... in the order of allocation.
\<close>

definition executeCommand ::
  "string \<Rightarrow> string \<Rightarrow> bool option \<Rightarrow> bool option \<Rightarrow> (world, string) io" where
  "executeCommand paneId commandText rawMode noEnter w =
     (let commandId = ''c'' @ decimal (Suc (issued w));
          raw = (truthy noEnter \<or> truthy rawMode);
          ks = (if raw then (if truthy noEnter then SendRawKeys commandText
                             else SendText commandText)
                else SendText (buildWrapped commandId commandText (shellType w)));
          w1 = w\<lparr>issued := Suc (issued w)\<rparr>
      in case deliver w paneId ks of
           Some error \<Rightarrow> (Inl error, w1)
         | None \<Rightarrow>
             (Inr commandId,
              w1\<lparr>sent := sent w @ [(paneId, ks)],
                 commands := commands w @
                   [(commandId,
                     \<lparr>id_c = commandId, paneId_c = paneId, command_c = commandText,
                      startTime = clock w, status = Pending, exitCode = None,
                      result = (if raw then Some advisory else None), rawMode_c = raw\<rparr>)]\<rparr>))"

text \<open>
  Modelled from the spec: \<open>checkStatus\<close> (section 4.4), called \<open>checkCommandStatus\<close> by
  the handlers.
\<close>

definition checkCommandStatus :: "string option \<Rightarrow> (world, tmux_command option) io" where
  "checkCommandStatus commandId w =
     (case commandId of
        None \<Rightarrow> (Inr None, w)
      | Some ident \<Rightarrow>
          (case map_of (commands w) ident of
             None \<Rightarrow> (Inr None, w)
           | Some c \<Rightarrow>
               if status c \<noteq> Pending then (Inr (Some c), w)
               else if rawMode_c c then (Inr (Some c), w)
               else
                 (case capture w (paneId_c c) (captureLines w) False of
                    Inl error \<Rightarrow> (Inl error, w)
                  | Inr captured \<Rightarrow>
                      (let p = parse captured ident in
                       case (parsed_found p, parsed_exitCode p) of
                         (True, Some n) \<Rightarrow>
                           (let c' = c\<lparr>status := (if n = 0 then Completed else Failed),
                                       exitCode := Some n, result := parsed_output p\<rparr>
                            in (Inr (Some c'),
                                w\<lparr>commands := AList.update ident c' (commands w)\<rparr>))
                       | _ \<Rightarrow> (Inr (Some c), w)))))"

text \<open>
  Modelled from the spec: the registry operations of section 4.3, under the names the
  handlers call them by. An entry is swept when its age exceeds the threshold.
\<close>

definition too_old :: "world \<Rightarrow> nat \<Rightarrow> tmux_command \<Rightarrow> bool" where
  "too_old w maxAgeMinutes c = (clock w - startTime c > int maxAgeMinutes * 60000)"

definition cleanupOldCommands :: "nat \<Rightarrow> world \<Rightarrow> world" where
  "cleanupOldCommands maxAgeMinutes w =
     w\<lparr>commands := filter (\<lambda>(ident, c). \<not> too_old w maxAgeMinutes c) (commands w)\<rparr>"

definition getActiveCommandIds :: "world \<Rightarrow> string list" where
  "getActiveCommandIds w = map fst (commands w)"

definition getCommand :: "string \<Rightarrow> world \<Rightarrow> tmux_command option" where
  "getCommand ident w = map_of (commands w) ident"

text \<open>
  Modelled from the spec: the invariant of section 3 that identifiers are unique and
  never reused. The registry is in order when no identifier occurs twice in it and
  every identifier in it has been allocated. The empty registry is in order, and every
  operation of the module keeps it so.
\<close>

definition issued_ids :: "world \<Rightarrow> string list" where
  "issued_ids w = map (\<lambda>k. ''c'' @ decimal k) [1..<Suc (issued w)]"

definition registry_ok :: "world \<Rightarrow> bool" where
  "registry_ok w =
     (distinct (map fst (commands w))
      \<and> list_all (\<lambda>(ident, c). ident \<in> set (issued_ids w)) (commands w))"

section \<open>Git worktrees (src/git.ts)\<close>

subsection \<open>The outside: the path module and the git process\<close>

text \<open>
  \<open>normalize\<close>, \<open>isAbsolute\<close> and \<open>resolve\<close> come from Node's \<open>path\<close> module; the functions
  below take them as a parameter. \<open>resolve\<close> takes its segments as a list.
\<close>

record path_ops =
  normalize :: "string \<Rightarrow> string"
  isAbsolute :: "string \<Rightarrow> bool"
  resolve :: "string list \<Rightarrow> string"

text \<open>
  \<open>execFile("git", argv)\<close> acts on a repository state \<open>'g\<close> outside the program: it
  either yields \<open>stdout\<close> and \<open>stderr\<close> or is rejected with an error, of which \<open>runGit\<close>
  reads the \<open>stderr\<close> text and the message (empty when the error has none). The
  state of the program's surroundings also records every argument vector git has been
  started with.
\<close>

record exec_failure =
  failure_stderr :: string
  failure_message :: string

type_synonym 'g git = "string list \<Rightarrow> 'g \<Rightarrow> (exec_failure + string \<times> string) \<times> 'g"

record 'g surroundings =
  repository :: 'g
  invocations :: "string list list"

subsection \<open>Strings\<close>

text \<open>\<open>parts.join(sep)\<close>.\<close>

fun join :: "string \<Rightarrow> string list \<Rightarrow> string" where
  "join sep [] = []"
| "join sep [x] = x"
| "join sep (x # y # rest) = x @ sep @ join sep (y # rest)"

text \<open>\<open>text.split(/\r?\n/)\<close>.\<close>

fun split_lines :: "string \<Rightarrow> string list" where
  "split_lines [] = [[]]"
| "split_lines [c] = (if c = CHR 0x0A then [[], []] else [[c]])"
| "split_lines (c # d # cs) =
     (if c = CHR 0x0D \<and> d = CHR 0x0A then [] # split_lines cs
      else if c = CHR 0x0A then [] # split_lines (d # cs)
      else (case split_lines (d # cs) of
              [] \<Rightarrow> [[c]]
            | l # ls \<Rightarrow> (c # l) # ls))"

text \<open>\<open>reason.replace(/^\(|\)$/g, '')\<close>: an opening parenthesis at the start and a closing one
  at the end are removed.\<close>

definition strip_parens :: "string \<Rightarrow> string" where
  "strip_parens reason =
     (let r = (if prefix ''('' reason then drop 1 reason else reason)
      in if r \<noteq> [] \<and> last r = CHR '')'' then butlast r else r)"

subsection \<open>Running git\<close>

definition runGit :: "'g git \<Rightarrow> string \<Rightarrow> string list \<Rightarrow> ('g surroundings, string \<times> string) io" where
  "runGit git repoPath args s =
     (let argv = [''-C'', repoPath] @ args in
      case git argv (repository s) of
        (Inr (stdout, stderr), g) \<Rightarrow>
          (Inr (stdout, stderr), \<lparr>repository = g, invocations = invocations s @ [argv]\<rparr>)
      | (Inl error, g) \<Rightarrow>
          (let stderr = failure_stderr error;
               message = (if trim stderr \<noteq> [] then trim stderr
                          else if failure_message error \<noteq> [] then failure_message error
                          else ''git '' @ join '' '' args)
           in (Inl (JsError (''git '' @ join '' '' args @ '' failed: '' @ message)),
               \<lparr>repository = g, invocations = invocations s @ [argv]\<rparr>)))"

definition resolveRepoPath :: "path_ops \<Rightarrow> 'g git \<Rightarrow> string \<Rightarrow> ('g surroundings, string) io" where
  "resolveRepoPath P git repoPath s =
     (let normalized = normalize P repoPath in
      case runGit git normalized [''rev-parse'', ''--show-toplevel''] s of
        (Inl error, s') \<Rightarrow> (Inl error, s')
      | (Inr (stdout, stderr), s') \<Rightarrow> (Inr (normalize P (trim stdout)), s'))"

definition parseWorktreeBranch :: "string \<Rightarrow> string" where
  "parseWorktreeBranch v =
     (let trimmed = trim v; pre = ''refs/heads/''
      in if prefix pre trimmed then drop (length pre) trimmed else trimmed)"

subsection \<open>Listing worktrees\<close>

record WorktreeInfo =
  path :: string
  head :: "string option"
  branch :: "string option"
  bare :: "bool option"
  detached :: "bool option"
  locked :: "string option"
  prunable :: "string option"

definition new_worktree :: "string \<Rightarrow> WorktreeInfo" where
  "new_worktree p = \<lparr>path = p, head = None, branch = None, bare = None, detached = None,
                      locked = None, prunable = None\<rparr>"

text \<open>
  One turn of the loop of \<open>listWorktrees\<close> over the lines of the porcelain output; the
  loop's variables are the list \<open>worktrees\<close> and the entry \<open>current\<close>.
\<close>

definition porcelain_line ::
  "path_ops \<Rightarrow> string \<Rightarrow> WorktreeInfo list \<times> WorktreeInfo option \<Rightarrow> string \<Rightarrow>
   WorktreeInfo list \<times> WorktreeInfo option" where
  "porcelain_line P root vars rawLine =
     (let worktrees = fst vars; current = snd vars; line = trim rawLine;
          pushed = (case current of None \<Rightarrow> worktrees | Some cur \<Rightarrow> worktrees @ [cur])
      in if line = [] then (pushed, None)
         else if prefix ''worktree '' line then
           (let p = trim (drop (length ''worktree '') line);
                absolutePath = (if isAbsolute P p then p else resolve P [root, p])
            in (pushed, Some (new_worktree (normalize P absolutePath))))
         else
           (case current of
              None \<Rightarrow> (worktrees, None)
            | Some cur \<Rightarrow>
                if prefix ''HEAD '' line then
                  (worktrees, Some (cur\<lparr>head := Some (trim (drop (length ''HEAD '') line))\<rparr>))
                else if prefix ''branch '' line then
                  (worktrees,
                   Some (cur\<lparr>branch := Some (parseWorktreeBranch (drop (length ''branch '') line))\<rparr>))
                else if line = ''bare'' then (worktrees, Some (cur\<lparr>bare := Some True\<rparr>))
                else if line = ''detached'' then (worktrees, Some (cur\<lparr>detached := Some True\<rparr>))
                else if prefix ''locked'' line then
                  (let reason = trim (drop (length ''locked'') line)
                   in (worktrees,
                       Some (cur\<lparr>locked := Some (if strip_parens reason \<noteq> [] then strip_parens reason
                                                  else ''locked'')\<rparr>)))
                else if prefix ''prunable'' line then
                  (let reason = trim (drop (length ''prunable'') line)
                   in (worktrees,
                       Some (cur\<lparr>prunable := Some (if strip_parens reason \<noteq> [] then strip_parens reason
                                                    else ''prunable'')\<rparr>)))
                else (worktrees, Some cur)))"

definition parse_porcelain :: "path_ops \<Rightarrow> string \<Rightarrow> string \<Rightarrow> WorktreeInfo list" where
  "parse_porcelain P root stdout =
     (let vars = foldl (porcelain_line P root) ([], None) (split_lines stdout);
          worktrees = (case snd vars of None \<Rightarrow> fst vars | Some cur \<Rightarrow> fst vars @ [cur])
      in map (\<lambda>entry. entry\<lparr>path := normalize P (path entry)\<rparr>) worktrees)"

definition listWorktrees ::
  "path_ops \<Rightarrow> 'g git \<Rightarrow> string \<Rightarrow> ('g surroundings, WorktreeInfo list) io" where
  "listWorktrees P git repoPath s =
     (case resolveRepoPath P git repoPath s of
        (Inl error, s1) \<Rightarrow> (Inl error, s1)
      | (Inr root, s1) \<Rightarrow>
          (case runGit git root [''worktree'', ''list'', ''--porcelain''] s1 of
             (Inl error, s2) \<Rightarrow> (Inl error, s2)
           | (Inr (stdout, stderr), s2) \<Rightarrow> (Inr (parse_porcelain P root stdout), s2)))"

subsection \<open>Ensuring a worktree\<close>

record EnsureWorktreeOptions =
  repoPath :: string
  branchName :: string
  worktreePath :: "string option"
  baseRef :: "string option"
  createBranch :: "bool option"
  force :: "bool option"

record EnsureWorktreeResult =
  result_repoPath :: string
  result_worktreePath :: string
  result_branch :: string
  created :: bool
  existingWorktree :: "WorktreeInfo option"

text \<open>The constant \<open>candidatePath\<close> of \<open>ensureWorktree\<close>.\<close>

definition candidatePath :: "path_ops \<Rightarrow> string \<Rightarrow> EnsureWorktreeOptions \<Rightarrow> string" where
  "candidatePath P repoRoot options =
     (case worktreePath options of
        Some wp \<Rightarrow>
          if wp \<noteq> [] then
            (if isAbsolute P wp then normalize P wp else normalize P (resolve P [repoRoot, wp]))
          else normalize P (resolve P [repoRoot, ''..'', branchName options])
      | None \<Rightarrow> normalize P (resolve P [repoRoot, ''..'', branchName options]))"

text \<open>The argument list \<open>args\<close> that \<open>ensureWorktree\<close> builds for \<open>git worktree add\<close>.\<close>

definition add_args :: "string \<Rightarrow> EnsureWorktreeOptions \<Rightarrow> string list" where
  "add_args candidate options =
     [''worktree'', ''add'']
       @ (if truthy (force options) then [''--force''] else [])
       @ (if truthy (createBranch options) then [''-b'', branchName options] else [])
       @ [candidate]
       @ (if truthy (createBranch options) \<and> truthy_string (baseRef options)
          then [template_string (baseRef options)]
          else if \<not> truthy (createBranch options) then [branchName options] else [])"

text \<open>
  The worktree \<open>branchInUse\<close> when it makes \<open>ensureWorktree\<close> throw: the first worktree
  that has the branch checked out, if it lies elsewhere and \<open>force\<close> is not set.
\<close>

definition blocking_worktree ::
  "path_ops \<Rightarrow> string \<Rightarrow> EnsureWorktreeOptions \<Rightarrow> WorktreeInfo list \<Rightarrow> WorktreeInfo option" where
  "blocking_worktree P candidate options worktrees =
     (case find (\<lambda>entry. branch entry = Some (branchName options)) worktrees of
        None \<Rightarrow> None
      | Some branchInUse \<Rightarrow>
          if normalize P (path branchInUse) \<noteq> candidate \<and> \<not> truthy (force options)
          then Some branchInUse else None)"

definition ensureWorktree ::
  "path_ops \<Rightarrow> 'g git \<Rightarrow> EnsureWorktreeOptions \<Rightarrow> ('g surroundings, EnsureWorktreeResult) io" where
  "ensureWorktree P git options s =
     (if trim (branchName options) = [] then (Inl (JsError ''branchName is required''), s)
      else if \<not> truthy (createBranch options) \<and> truthy_string (baseRef options) then
        (Inl (JsError ''baseRef can only be used when createBranch is true''), s)
      else
        (case resolveRepoPath P git (repoPath options) s of
           (Inl error, s1) \<Rightarrow> (Inl error, s1)
         | (Inr repoRoot, s1) \<Rightarrow>
             (let candidate = candidatePath P repoRoot options in
              case listWorktrees P git repoRoot s1 of
                (Inl error, s2) \<Rightarrow> (Inl error, s2)
              | (Inr worktrees, s2) \<Rightarrow>
                  (case find (\<lambda>entry. normalize P (path entry) = candidate) worktrees of
                     Some existingByPath \<Rightarrow>
                       (Inr \<lparr>result_repoPath = repoRoot, result_worktreePath = candidate,
                             result_branch = (case branch existingByPath of
                                                Some b \<Rightarrow> b | None \<Rightarrow> branchName options),
                             created = False, existingWorktree = Some existingByPath\<rparr>, s2)
                   | None \<Rightarrow>
                       (case blocking_worktree P candidate options worktrees of
                          Some branchInUse \<Rightarrow>
                            (Inl (JsError (''Branch '' @ branchName options
                                    @ '' is already checked out at '' @ path branchInUse
                                    @ ''. Use force=true to reuse the branch or choose a different branch name.'')),
                             s2)
                        | None \<Rightarrow>
                            (case runGit git repoRoot (add_args candidate options) s2 of
                               (Inl error, s3) \<Rightarrow> (Inl error, s3)
                             | (Inr done, s3) \<Rightarrow>
                                 (Inr \<lparr>result_repoPath = repoRoot,
                                       result_worktreePath = candidate,
                                       result_branch = branchName options, created = True,
                                       existingWorktree = None\<rparr>, s3)))))))"

subsection \<open>A small repository\<close>

text \<open>
  A stand-in for git, to run the functions above on: the repository is the list of its
  worktrees, each a path and a branch; its root is \<open>/repo\<close>. It answers \<open>rev-parse
  --show-toplevel\<close> and \<open>worktree list --porcelain\<close>, and \<open>worktree add PATH BRANCH\<close>
  adds a worktree, whose path it records, as git does, without a separator at the end.
  The stand-in for the path module takes paths that are already normal and absolute;
  like Node's \<open>normalize\<close>, it keeps a separator at the end of a path.
\<close>

definition strip_slash :: "string \<Rightarrow> string" where
  "strip_slash p = (if 1 < length p \<and> last p = CHR ''/'' then butlast p else p)"

definition small_porcelain :: "(string \<times> string) list \<Rightarrow> string" where
  "small_porcelain repo =
     concat (map (\<lambda>(p, b). ''worktree '' @ p @ ''\<newline>HEAD 0000000\<newline>branch refs/heads/'' @ b
                           @ ''\<newline>\<newline>'') repo)"

definition small_git :: "(string \<times> string) list git" where
  "small_git argv repo =
     (if drop 2 argv = [''rev-parse'', ''--show-toplevel''] then (Inr (''/repo\<newline>'', []), repo)
      else if drop 2 argv = [''worktree'', ''list'', ''--porcelain'']
        then (Inr (small_porcelain repo, []), repo)
      else if take 2 (drop 2 argv) = [''worktree'', ''add''] \<and> length argv = 6
        then (Inr ([], []), repo @ [(strip_slash (argv ! 4), argv ! 5)])
      else (Inl \<lparr>failure_stderr = ''fatal: not supported'', failure_message = []\<rparr>, repo))"

definition small_paths :: path_ops where
  "small_paths = \<lparr>normalize = (\<lambda>p. p), isAbsolute = (\<lambda>p. prefix ''/'' p),
                   resolve = (\<lambda>segments. join ''/'' segments)\<rparr>"

definition small_start :: "(string \<times> string) list surroundings" where
  "small_start = \<lparr>repository = [(''/repo'', ''main'')], invocations = []\<rparr>"

definition feat_options :: EnsureWorktreeOptions where
  "feat_options = \<lparr>repoPath = ''/repo'', branchName = ''feat'', worktreePath = Some ''/wt/feat'',
                    baseRef = None, createBranch = None, force = None\<rparr>"

text \<open>
  A git whose two queries, \<open>rev-parse --show-toplevel\<close> and \<open>worktree list --porcelain\<close>,
  leave the repository as it is.
\<close>

definition queries_read_only :: "'g git \<Rightarrow> bool" where
  "queries_read_only git =
     (\<forall>dir g. snd (git [''-C'', dir, ''rev-parse'', ''--show-toplevel''] g) = g
              \<and> snd (git [''-C'', dir, ''worktree'', ''list'', ''--porcelain''] g) = g)"

text \<open>
  The small repository after \<open>ensureWorktree\<close> has run once on it, the worktree that run
  creates as git then lists it, and a small repository with the branch \<open>feat\<close> checked out
  at \<open>/wt/x\<close> and another worktree at \<open>/wt/y\<close>.
\<close>

definition after_first :: "(string \<times> string) list surroundings" where
  "after_first = snd (ensureWorktree small_paths small_git feat_options small_start)"

definition feat_worktree :: WorktreeInfo where
  "feat_worktree = \<lparr>path = ''/wt/feat'', head = Some ''0000000'', branch = Some ''feat'',
                     bare = None, detached = None, locked = None, prunable = None\<rparr>"

definition crowded :: "(string \<times> string) list surroundings" where
  "crowded = \<lparr>repository = [(''/repo'', ''main''), (''/wt/x'', ''feat''), (''/wt/y'', ''other'')],
              invocations = []\<rparr>"

section \<open>The launch-agent-pane tool\<close>

subsection \<open>Shell commands for the new pane\<close>

text \<open>\<open>/^[A-Za-z_][A-Za-z0-9_]*$/.test(key)\<close>.\<close>

definition is_name_start :: "char \<Rightarrow> bool" where
  "is_name_start c =
     ((65 \<le> (of_char c :: nat) \<and> (of_char c :: nat) \<le> 90)
      \<or> (97 \<le> (of_char c :: nat) \<and> (of_char c :: nat) \<le> 122)
      \<or> c = CHR ''_'')"

definition is_name_char :: "char \<Rightarrow> bool" where
  "is_name_char c = (is_name_start c \<or> is_digit c)"

fun env_key_matches :: "string \<Rightarrow> bool" where
  "env_key_matches [] = False"
| "env_key_matches (c # cs) = (is_name_start c \<and> list_all is_name_char cs)"

definition validateEnvKey :: "string \<Rightarrow> exn + unit" where
  "validateEnvKey key =
     (if \<not> env_key_matches key then Inl (JsError (''Invalid environment variable name: '' @ key))
      else Inr ())"

text \<open>\<open>value.replace(/(["\\])/g, "\\$1")\<close>: every double quote and every backslash gets a
  backslash in front.\<close>

fun escape_quotes :: "string \<Rightarrow> string" where
  "escape_quotes [] = []"
| "escape_quotes (c # cs) =
     (if c = CHR 0x22 \<or> c = CHR 0x5C then CHR 0x5C # c # escape_quotes cs
      else c # escape_quotes cs)"

definition buildExportCommand :: "string \<Rightarrow> string \<Rightarrow> exn + string" where
  "buildExportCommand key v =
     (case validateEnvKey key of
        Inl error \<Rightarrow> Inl error
      | Inr ok \<Rightarrow> Inr (''export '' @ key @ ''='' @ [CHR 0x22] @ escape_quotes v @ [CHR 0x22]))"

definition buildCdCommand :: "string \<Rightarrow> string" where
  "buildCdCommand p = ''cd '' @ [CHR 0x22] @ escape_quotes p @ [CHR 0x22]"

text \<open>
  Reading a double-quoted shell word back: a backslash makes the next character
  literal.
\<close>

fun unescape :: "string \<Rightarrow> string" where
  "unescape [] = []"
| "unescape [c] = [c]"
| "unescape (c # d # cs) = (if c = CHR 0x5C then d # unescape cs else c # unescape (d # cs))"

subsection \<open>The handler\<close>

text \<open>Sequencing of asynchronous operations: \<open>await\<close>, \<open>return\<close> and \<open>throw\<close>.\<close>

definition io_bind :: "('w, 'a) io \<Rightarrow> ('a \<Rightarrow> ('w, 'b) io) \<Rightarrow> ('w, 'b) io" where
  "io_bind m f w = (case m w of (Inl error, w') \<Rightarrow> (Inl error, w') | (Inr x, w') \<Rightarrow> f x w')"

definition io_return :: "'a \<Rightarrow> ('w, 'a) io" where
  "io_return x w = (Inr x, w)"

definition io_throw :: "exn \<Rightarrow> ('w, 'a) io" where
  "io_throw error w = (Inl error, w)"

datatype direction = Horizontal | Vertical

fun direction_string :: "direction \<Rightarrow> string" where
  "direction_string Horizontal = ''horizontal''"
| "direction_string Vertical = ''vertical''"

datatype agent = Codex | Claudecode | Gemini

text \<open>The table \<open>defaultAgentCommands\<close>, and \<open>agent.toUpperCase()\<close>.\<close>

fun defaultAgentCommands :: "agent \<Rightarrow> string" where
  "defaultAgentCommands Codex = ''codex''"
| "defaultAgentCommands Claudecode = ''claudecode''"
| "defaultAgentCommands Gemini = ''gemini''"

fun agent_upper :: "agent \<Rightarrow> string" where
  "agent_upper Codex = ''CODEX''"
| "agent_upper Claudecode = ''CLAUDECODE''"
| "agent_upper Gemini = ''GEMINI''"

text \<open>
  The input of the tool. \<open>'n\<close> is the type of JavaScript numbers; \<open>environment\<close> is the
  list of pairs \<open>Object.entries\<close> gives; \<open>direction\<close> and \<open>size\<close> are the fields
  \<open>split_direction\<close> and \<open>split_size\<close>.
\<close>

record 'n launch_input =
  targetPaneId :: "string option"
  target :: "string option"
  split_direction :: "direction option"
  split_size :: "'n option"
  agent :: "agent option"
  agentCommand :: "string option"
  workingDirectory :: "string option"
  paneTitle :: "string option"
  focus :: "bool option"
  environment :: "(string \<times> string) list option"
  initialMessage :: "string option"
  initialMessageDelayMs :: "'n option"
  worktree :: "EnsureWorktreeOptions option"

text \<open>
  What the handler calls: the tmux module's \<open>getActivePaneId\<close>, \<open>splitPane\<close> (of whose
  result only the new pane's id is read; \<open>None\<close> is \<open>null\<close>), \<open>selectPane\<close>, \<open>renamePane\<close> and
  \<open>sendKeysToPane\<close>; \<open>git.ensureWorktree\<close>; the timer; and, of JavaScript numbers, their
  text in a template literal, their truthiness, the test \<open>n > 0\<close> and the number 500.
\<close>

record ('w, 'n) launch_deps =
  getActivePaneId :: "string option \<Rightarrow> ('w, string) io"
  splitPane :: "string \<Rightarrow> direction \<Rightarrow> 'n option \<Rightarrow> ('w, string option) io"
  selectPane :: "string \<Rightarrow> ('w, unit) io"
  renamePane :: "string \<Rightarrow> string \<Rightarrow> ('w, unit) io"
  sendKeysToPane :: "string \<Rightarrow> string \<Rightarrow> ('w, unit) io"
  ensure_worktree :: "EnsureWorktreeOptions \<Rightarrow> ('w, EnsureWorktreeResult) io"
  setTimeout :: "'n \<Rightarrow> ('w, unit) io"
  number_text :: "'n \<Rightarrow> string"
  number_truthy :: "'n \<Rightarrow> bool"
  number_positive :: "'n \<Rightarrow> bool"
  number_500 :: 'n

text \<open>The loop over \<open>Object.entries(input.environment)\<close>; \<open>operations\<close> is the handler's log.\<close>

fun export_loop ::
  "('w, 'n) launch_deps \<Rightarrow> string \<Rightarrow> (string \<times> string) list \<Rightarrow> string list \<Rightarrow> ('w, string list) io" where
  "export_loop D newPaneId [] operations = io_return operations"
| "export_loop D newPaneId ((key, v) # rest) operations =
     (case buildExportCommand key v of
        Inl error \<Rightarrow> io_throw error
      | Inr exportCommand \<Rightarrow>
          io_bind (sendKeysToPane D newPaneId exportCommand)
            (\<lambda>sent. export_loop D newPaneId rest (operations @ [''Exported '' @ key])))"

text \<open>
  The steps of the handler's \<open>try\<close> block, each from one \<open>if\<close> of the source, and the block in
  three parts: up to the split, from there to the worktree, and the rest.
\<close>

definition focus_step :: "('w, 'n) launch_deps \<Rightarrow> 'n launch_input \<Rightarrow> string \<Rightarrow> string list \<Rightarrow> ('w, string list) io" where
  "focus_step D input newPaneId operations =
     (if (case focus input of None \<Rightarrow> True | Some b \<Rightarrow> b) then
        io_bind (selectPane D newPaneId) (\<lambda>selected. io_return (operations @ [''Focused new pane'']))
      else io_return operations)"

definition inferredTitle :: "'n launch_input \<Rightarrow> string option" where
  "inferredTitle input =
     (case paneTitle input of
        Some t \<Rightarrow> Some t
      | None \<Rightarrow> (case agent input of
                   Some a \<Rightarrow> Some (''Agent | '' @ agent_upper a)
                 | None \<Rightarrow> None))"

definition title_step :: "('w, 'n) launch_deps \<Rightarrow> 'n launch_input \<Rightarrow> string \<Rightarrow> string list \<Rightarrow> ('w, string list) io" where
  "title_step D input newPaneId operations =
     (if truthy_string (inferredTitle input) then
        io_bind (renamePane D newPaneId (template_string (inferredTitle input)))
          (\<lambda>renamed. io_return (operations @ [''Set pane title to '' @ [CHR 0x22]
                        @ template_string (inferredTitle input) @ [CHR 0x22]]))
      else io_return operations)"

definition worktree_step ::
  "('w, 'n) launch_deps \<Rightarrow> 'n launch_input \<Rightarrow> string list \<Rightarrow> ('w, string option \<times> string list) io" where
  "worktree_step D input operations =
     (case worktree input of
        None \<Rightarrow> io_return (workingDirectory input, operations)
      | Some options \<Rightarrow>
          io_bind (ensure_worktree D options)
            (\<lambda>worktreeResult.
               io_return
                 (if truthy_string (workingDirectory input) then workingDirectory input
                  else Some (result_worktreePath worktreeResult),
                  if created worktreeResult then
                    operations @ [''Created worktree at '' @ result_worktreePath worktreeResult
                      @ '' (branch '' @ result_branch worktreeResult @ '')'']
                  else
                    (case existingWorktree worktreeResult of
                       None \<Rightarrow> operations
                     | Some existing \<Rightarrow>
                         operations @ [''Reused existing worktree at ''
                           @ result_worktreePath worktreeResult @ '' (branch ''
                           @ (case branch existing of
                                Some b \<Rightarrow> b | None \<Rightarrow> result_branch worktreeResult)
                           @ '')'']))))"

definition cd_step :: "('w, 'n) launch_deps \<Rightarrow> string \<Rightarrow> string option \<Rightarrow> string list \<Rightarrow> ('w, string list) io" where
  "cd_step D newPaneId dir operations =
     (if truthy_string dir then
        io_bind (sendKeysToPane D newPaneId (buildCdCommand (template_string dir)))
          (\<lambda>sent. io_return (operations @ [''Changed directory to '' @ template_string dir]))
      else io_return operations)"

definition environment_step :: "('w, 'n) launch_deps \<Rightarrow> 'n launch_input \<Rightarrow> string \<Rightarrow> string list \<Rightarrow> ('w, string list) io" where
  "environment_step D input newPaneId operations =
     (case environment input of
        None \<Rightarrow> io_return operations
      | Some entries \<Rightarrow> export_loop D newPaneId entries operations)"

definition launchCommand :: "'n launch_input \<Rightarrow> string option" where
  "launchCommand input =
     (case agentCommand input of
        Some c \<Rightarrow> Some c
      | None \<Rightarrow> map_option defaultAgentCommands (agent input))"

definition command_step :: "('w, 'n) launch_deps \<Rightarrow> 'n launch_input \<Rightarrow> string \<Rightarrow> string list \<Rightarrow> ('w, string list) io" where
  "command_step D input newPaneId operations =
     (if truthy_string (launchCommand input) then
        io_bind (sendKeysToPane D newPaneId (template_string (launchCommand input)))
          (\<lambda>sent. io_return (operations @ [''Started command: '' @ template_string (launchCommand input)]))
      else io_return (operations @ [''No launch command supplied; pane left idle.'']))"

definition message_step :: "('w, 'n) launch_deps \<Rightarrow> 'n launch_input \<Rightarrow> string \<Rightarrow> string list \<Rightarrow> ('w, string list) io" where
  "message_step D input newPaneId operations =
     (if truthy_string (initialMessage input) then
        (let delayMs = (case initialMessageDelayMs input of None \<Rightarrow> number_500 D | Some n \<Rightarrow> n) in
         io_bind (if number_positive D delayMs then setTimeout D delayMs else io_return ())
           (\<lambda>waited.
              io_bind (sendKeysToPane D newPaneId (template_string (initialMessage input)))
                (\<lambda>sent. io_return (operations @ [''Posted initial message to agent CLI'']))))
      else io_return operations)"

definition finish_steps ::
  "('w, 'n) launch_deps \<Rightarrow> 'n launch_input \<Rightarrow> string \<Rightarrow> string option \<Rightarrow> string list \<Rightarrow> ('w, string) io" where
  "finish_steps D input newPaneId dir operations =
     io_bind (cd_step D newPaneId dir operations)
       (\<lambda>operations.
     io_bind (environment_step D input newPaneId operations)
       (\<lambda>operations.
     io_bind (command_step D input newPaneId operations)
       (\<lambda>operations.
     io_bind (message_step D input newPaneId operations)
       (\<lambda>operations.
     io_return (join ''\<newline>'' ((''New pane '' @ newPaneId @ '' ready.'')
                  # map (\<lambda>item. ''- '' @ item) operations))))))"

definition prepare_steps ::
  "('w, 'n) launch_deps \<Rightarrow> 'n launch_input \<Rightarrow> direction \<Rightarrow> string \<Rightarrow> string \<Rightarrow> ('w, string) io" where
  "prepare_steps D input dir targetPane newPaneId =
     (let sizeSuffix =
            (case split_size input of
               None \<Rightarrow> []
             | Some n \<Rightarrow> if number_truthy D n then '', size '' @ number_text D n @ ''%'' else []);
          operations = [''Split pane '' @ targetPane @ '' -> '' @ newPaneId @ '' (''
                          @ direction_string dir @ sizeSuffix @ '')'']
      in
     io_bind (focus_step D input newPaneId operations)
       (\<lambda>operations.
     io_bind (title_step D input newPaneId operations)
       (\<lambda>operations.
     io_bind (worktree_step D input operations)
       (\<lambda>(dir_now, operations). finish_steps D input newPaneId dir_now operations))))"

definition launch_steps :: "('w, 'n) launch_deps \<Rightarrow> 'n launch_input \<Rightarrow> ('w, string) io" where
  "launch_steps D input =
     (let dir = (case split_direction input of None \<Rightarrow> Vertical | Some d \<Rightarrow> d) in
      io_bind (case targetPaneId input of
                 Some t \<Rightarrow> io_return t
               | None \<Rightarrow> getActivePaneId D (target input))
        (\<lambda>targetPane.
      io_bind (splitPane D targetPane dir (split_size input))
        (\<lambda>newPane.
           case newPane of
             None \<Rightarrow> io_throw (JsError (''Failed to create a new pane from target '' @ targetPane))
           | Some newPaneId \<Rightarrow> prepare_steps D input dir targetPane newPaneId)))"

definition launch_agent_pane ::
  "('w, 'n) launch_deps \<Rightarrow> 'n launch_input \<Rightarrow> 'w \<Rightarrow> tool_result \<times> 'w" where
  "launch_agent_pane D input w =
     (case launch_steps D input w of
        (Inr message, w') \<Rightarrow> (\<lparr>content_text = message, isError = False\<rparr>, w')
      | (Inl error, w') \<Rightarrow>
          (\<lparr>content_text = ''Error launching agent pane: '' @ error_string error,
            isError = True\<rparr>, w'))"

text \<open>The letters of the classes \<open>[A-Za-z]\<close>, written out.\<close>

definition letters :: string where
  "letters = ''ABCDEFGHIJKLMNOPQRSTUVWXYZabcdefghijklmnopqrstuvwxyz''"

subsection \<open>A recording pane\<close>

text \<open>
  Collaborators to run the handler with: the world is the list of the texts sent, each
  with its pane; the split always yields pane \<open>%9\<close>; numbers are natural numbers. And an
  input whose second environment variable has a space in its name.
\<close>

definition recording :: "((string \<times> string) list, nat) launch_deps" where
  "recording =
     \<lparr>getActivePaneId = (\<lambda>t. io_return ''%1''),
      splitPane = (\<lambda>p d n. io_return (Some ''%9'')),
      selectPane = (\<lambda>p. io_return ()),
      renamePane = (\<lambda>p t. io_return ()),
      sendKeysToPane = (\<lambda>p t w. (Inr (), w @ [(p, t)])),
      ensure_worktree = (\<lambda>options. io_throw (JsError ''git is not available'')),
      setTimeout = (\<lambda>n. io_return ()),
      number_text = decimal,
      number_truthy = (\<lambda>n. n \<noteq> 0),
      number_positive = (\<lambda>n. 0 < n),
      number_500 = 500\<rparr>"

definition bad_input :: "nat launch_input" where
  "bad_input =
     \<lparr>targetPaneId = Some ''%1'', target = None, split_direction = None, split_size = None,
      agent = Some Codex, agentCommand = None,
      workingDirectory = Some (''/tmp/a'' @ [CHR 0x22] @ ''b''),
      paneTitle = None, focus = Some False,
      environment = Some [(''API_KEY'', ''x'' @ [CHR 0x5C] @ ''y''), (''BAD KEY'', ''1''),
                          (''LATER'', ''2'')],
      initialMessage = None, initialMessageDelayMs = None, worktree = None\<rparr>"

section \<open>An example world\<close>

text \<open>
  A world with an empty registry, whose panes show the capture of the specification's
  end-to-end example and accept everything sent to them; the world after the example's
  command has been dispatched to pane \<open>%3\<close>; and the command record the example ends
  with.
\<close>

definition example_world :: world where
  "example_world =
     \<lparr>commands = [], issued = 0, clock = 1000000, shellType = Bash, captureLines = 1000,
      capture = (\<lambda>p n c. Inr ''<<START:c1>> hi <<END:c1:0>>''),
      deliver = (\<lambda>p k. None), sent = []\<rparr>"

definition dispatched_world :: world where
  "dispatched_world = snd (executeCommand ''%3'' ''echo hi; exit 0'' (Some False) None example_world)"

definition example_done :: tmux_command where
  "example_done = \<lparr>id_c = ''c1'', paneId_c = ''%3'', command_c = ''echo hi; exit 0'',
                      startTime = 1000000, status = Completed, exitCode = Some 0,
                      result = Some ''hi'', rawMode_c = False\<rparr>"

text \<open>
  The world of the example while the command is still running: the pane shows the start
  marker only. And the record of a command that has failed with exit code 127.
\<close>

definition running_world :: world where
  "running_world = dispatched_world\<lparr>capture := (\<lambda>p n c. Inr ''<<START:c1>> h'')\<rparr>"

definition failed_example :: tmux_command where
  "failed_example = \<lparr>id_c = ''c7'', paneId_c = ''%3'', command_c = ''mke all'',
                        startTime = 1000000, status = Failed, exitCode = Some 127,
                        result = Some ''mke: command not found'', rawMode_c = False\<rparr>"

text \<open>
  A world at time 1000000 ms whose registry holds a command started at time 0, more
  than ten minutes before, and one started 100 seconds before.
\<close>

definition aged_world :: world where
  "aged_world = example_world
     \<lparr>commands :=
        [(''c1'', \<lparr>id_c = ''c1'', paneId_c = ''%3'', command_c = ''make all'', startTime = 0,
                  status = Completed, exitCode = Some 0, result = Some ''done'',
                  rawMode_c = False\<rparr>),
         (''c2'', \<lparr>id_c = ''c2'', paneId_c = ''%3'', command_c = ''ls'', startTime = 900000,
                  status = Pending, exitCode = None, result = None, rawMode_c = False\<rparr>)],
      issued := 2\<rparr>"

section \<open>The shell in the pane\<close>

text \<open>
  A stand-in for the shell that runs in a pane, to play a wrapped line on. It takes a
  submitted line of three statements, \<open>echo "A"; COMMAND; echo "B"\<close>, where \<open>A\<close> and \<open>B\<close>
  contain no double quote, and splits it into \<open>A\<close>, \<open>COMMAND\<close> and \<open>B\<close>. The pane then
  shows \<open>A\<close> on a line, what the command prints, and \<open>B\<close> on a line with the shell's
  exit-status idiom replaced by the status the command has left. What a command prints
  and the status it leaves is given by \<open>behaviour\<close>. For a line of any other form the
  pane shows nothing.
\<close>

definition strip_prefix :: "string \<Rightarrow> string \<Rightarrow> string option" where
  "strip_prefix p s = (if prefix p s then Some (drop (length p) s) else None)"

definition submitted_statements :: "string \<Rightarrow> (string \<times> string \<times> string) option" where
  "submitted_statements line =
     (case strip_prefix (''echo '' @ [CHR 0x22]) line of
        None \<Rightarrow> None
      | Some r1 \<Rightarrow>
          (case strip_prefix ([CHR 0x22] @ ''; '') (dropWhile (\<lambda>c. c \<noteq> CHR 0x22) r1) of
             None \<Rightarrow> None
           | Some r2 \<Rightarrow>
               (case strip_prefix (rev ([CHR 0x22] @ ''\<newline>'')) (rev r2) of
                  None \<Rightarrow> None
                | Some r3 \<Rightarrow>
                    (case strip_prefix (rev (''; echo '' @ [CHR 0x22]))
                            (dropWhile (\<lambda>c. c \<noteq> CHR 0x22) r3) of
                       None \<Rightarrow> None
                     | Some r4 \<Rightarrow>
                         Some (takeWhile (\<lambda>c. c \<noteq> CHR 0x22) r1, rev r4,
                               rev (takeWhile (\<lambda>c. c \<noteq> CHR 0x22) r3))))))"

definition expand_status :: "shell \<Rightarrow> nat \<Rightarrow> string \<Rightarrow> string" where
  "expand_status sh n t =
     (case indexOf (exit_status_idiom sh) t of
        None \<Rightarrow> t
      | Some i \<Rightarrow> take i t @ decimal n @ drop (i + length (exit_status_idiom sh)) t)"

definition pane_shows :: "shell \<Rightarrow> (string \<Rightarrow> string \<times> nat) \<Rightarrow> string \<Rightarrow> string" where
  "pane_shows sh behaviour line =
     (case submitted_statements line of
        None \<Rightarrow> []
      | Some (first, commandText, final) \<Rightarrow>
          (case behaviour commandText of
             (out, exitStatus) \<Rightarrow>
               first @ ''\<newline>'' @ out @ expand_status sh exitStatus final @ ''\<newline>''))"

text \<open>
  The world of the example with the stand-in shell in its panes: they show what the
  wrapped line of command \<open>c1\<close>, \<open>echo hi\<close>, leaves there when the command prints \<open>hi\<close> and
  a line feed and exits with status 0.
\<close>

definition shell_world :: world where
  "shell_world = example_world
     \<lparr>capture := (\<lambda>p n c. Inr (pane_shows Bash (\<lambda>commandText. (''hi\<newline>'', 0))
                                 (buildWrapped ''c1'' ''echo hi'' Bash)))\<rparr>"

section \<open>Properties\<close>

subsection \<open>Numbers and text\<close>

lemma decimal_small: "n < 10 \<Longrightarrow> decimal n = [digit_char n]"
  by (simp add: decimal.simps)

lemma decimal_1: "decimal (Suc 0) = ''1''"
  by code_simp

lemma decimal_0: "decimal 0 = ''0''"
  by code_simp

lemma digits_value_snoc: "digits_value (ds @ [c]) = 10 * digits_value ds + (of_char c - 48)"
  by (simp add: digits_value_def)

lemma digit_char_value: "d < 10 \<Longrightarrow> of_char (digit_char d) - 48 = d"
  by (simp add: digit_char_def)

lemma digits_value_decimal: "digits_value (decimal n) = n"
proof (induction n rule: decimal.induct)
  case (1 n)
  show ?case
  proof (cases "n < 10")
    case True
    then show ?thesis
      by (simp add: decimal_small digits_value_def digit_char_value)
  next
    case False
    then have "decimal n = decimal (n div 10) @ [digit_char (n mod 10)]"
      by (subst decimal.simps) simp
    with False "1.IH" show ?thesis
      by (simp add: digits_value_snoc digit_char_value)
  qed
qed

lemma decimal_inject: "decimal a = decimal b \<Longrightarrow> a = b"
  by (metis digits_value_decimal)

lemma decimal_digits: "c \<in> set (decimal n) \<Longrightarrow> is_digit c"
proof (induction n rule: decimal.induct)
  case (1 n)
  show ?case
  proof (cases "n < 10")
    case True
    with "1.prems" show ?thesis
      by (simp add: decimal_small is_digit_def digit_char_def)
  next
    case False
    then have "decimal n = decimal (n div 10) @ [digit_char (n mod 10)]"
      by (subst decimal.simps) simp
    with False "1.IH" "1.prems" show ?thesis
      by (auto simp: is_digit_def digit_char_def)
  qed
qed

lemma digit_not_space: "is_digit c \<Longrightarrow> \<not> is_space c"
  by (auto simp: is_digit_def is_space_def)

lemma indexOf_here: "indexOf p (p @ ys) = Some 0"
proof (cases "p @ ys")
  case Nil
  then show ?thesis by simp
next
  case (Cons a list)
  have "prefix p (p @ ys)" by simp
  with Cons show ?thesis by simp
qed

lemma indexOf_first:
  "\<forall>k<length xs. \<not> prefix p (drop k (xs @ p @ ys)) \<Longrightarrow>
   indexOf p (xs @ p @ ys) = Some (length xs)"
proof (induction xs)
  case Nil
  show ?case by (simp add: indexOf_here)
next
  case (Cons x xs)
  from Cons.prems have here: "\<not> prefix p (x # xs @ p @ ys)"
    by (auto dest: spec [of _ 0])
  have "\<forall>k<length xs. \<not> prefix p (drop k (xs @ p @ ys))"
  proof (intro allI impI)
    fix k assume "k < length xs"
    with Cons.prems have "\<not> prefix p (drop (Suc k) ((x # xs) @ p @ ys))"
      by (metis Suc_less_eq length_Cons)
    then show "\<not> prefix p (drop k (xs @ p @ ys))" by simp
  qed
  with Cons.IH have "indexOf p (xs @ p @ ys) = Some (length xs)" by simp
  with here show ?case by simp
qed

lemma sublist_skip_space:
  assumes "p \<noteq> []" "\<forall>c\<in>set p. \<not> is_space c" "\<forall>c\<in>set ws. is_space c"
  shows "sublist p (ws @ xs) \<Longrightarrow> sublist p xs"
  using assms(3)
proof (induction ws)
  case Nil
  then show ?case by simp
next
  case (Cons w ws)
  from Cons.prems have "prefix p (w # ws @ xs) \<or> sublist p (ws @ xs)"
    by (simp add: sublist_Cons_right)
  moreover have "\<not> prefix p (w # ws @ xs)"
  proof
    assume "prefix p (w # ws @ xs)"
    with assms(1) obtain q where "p = w # q" by (cases p) auto
    with assms(2) Cons.prems(2) show False by auto
  qed
  ultimately show ?case using Cons by auto
qed

lemma sublist_between_spaces:
  assumes "p \<noteq> []" "\<forall>c\<in>set p. \<not> is_space c"
      and "\<forall>c\<in>set ws1. is_space c" "\<forall>c\<in>set ws2. is_space c"
      and "sublist p (ws1 @ out @ ws2)"
  shows "sublist p out"
proof -
  from assms(5) have "sublist p (out @ ws2)"
    by (rule sublist_skip_space [OF assms(1,2,3)])
  then have "sublist (rev p) (rev ws2 @ rev out)"
    by (metis rev_append sublist_rev)
  moreover have "rev p \<noteq> []" "\<forall>c\<in>set (rev p). \<not> is_space c" "\<forall>c\<in>set (rev ws2). is_space c"
    using assms by auto
  ultimately have "sublist (rev p) (rev out)"
    using sublist_skip_space [of "rev p" "rev ws2" "rev out"] by blast
  then show ?thesis by (simp add: sublist_rev)
qed

lemma end_prefix_shape:
  "endMarkerPrefix ident = CHR ''<'' # CHR ''<'' # ''END:'' @ ident @ '':''"
  by (simp add: endMarkerPrefix_def)

lemma no_border:
  assumes plain: "CHR ''<'' \<notin> set ident"
      and split: "endMarkerPrefix ident = u @ v" "u \<noteq> []" "v \<noteq> []"
      and again: "prefix v (endMarkerPrefix ident)"
  shows False
proof -
  from again split(3) obtain v' where v: "v = CHR ''<'' # v'"
    by (cases v) (auto simp: end_prefix_shape)
  from split(2) obtain a u' where u: "u = a # u'" by (cases u) auto
  show False
  proof (cases u')
    case Nil
    with split(1) u v have "v' = ''END:'' @ ident @ '':''"
      by (simp add: end_prefix_shape)
    with again v show False
      by (simp add: end_prefix_shape)
  next
    case (Cons b u'')
    with split(1) u have "''END:'' @ ident @ '':'' = u'' @ v"
      by (simp add: end_prefix_shape)
    then have "set v \<subseteq> set (''END:'' @ ident @ '':'')"
      by (metis Un_upper2 set_append)
    with v plain show False by auto
  qed
qed

lemma no_match_before:
  assumes plain: "CHR ''<'' \<notin> set ident"
      and clean: "\<not> sublist (endMarkerPrefix ident) body"
  shows "\<forall>k<length body. \<not> prefix (endMarkerPrefix ident) (drop k (body @ endMarkerPrefix ident @ ys))"
proof (intro allI impI notI)
  fix k
  let ?p = "endMarkerPrefix ident"
  assume k: "k < length body" and m: "prefix ?p (drop k (body @ ?p @ ys))"
  from k have d: "drop k (body @ ?p @ ys) = drop k body @ ?p @ ys" by simp
  from k have ne: "drop k body \<noteq> []" by (simp only: drop_eq_Nil not_le)
  from m have "prefix ?p (drop k body @ ?p @ ys)"
    unfolding d .
  then have "prefix ?p (drop k body) \<or> (\<exists>v. ?p = drop k body @ v \<and> prefix v (?p @ ys))"
    using prefix_append [of ?p "drop k body" "?p @ ys"] by blast
  then show False
  proof
    assume "prefix ?p (drop k body)"
    then have "sublist ?p body"
      by (meson prefix_imp_sublist sublist_drop sublist_order.order_trans)
    with clean show False by simp
  next
    assume "\<exists>v. ?p = drop k body @ v \<and> prefix v (?p @ ys)"
    then obtain v where v: "?p = drop k body @ v" "prefix v (?p @ ys)" by blast
    show False
    proof (cases "v = []")
      case True
      with v(1) have "sublist ?p body"
        by (metis append_Nil2 sublist_drop)
      with clean show False by simp
    next
      case False
      from v(1) have "length v \<le> length ?p"
        by (metis length_append le_add2)
      with v(2) have "prefix v ?p"
        by (metis prefix_length_prefix prefixI)
      with no_border [OF plain v(1) ne False] show False by simp
    qed
  qed
qed

subsection \<open>The example world\<close>

lemma example_dispatch:
  "executeCommand ''%3'' ''echo hi; exit 0'' (Some False) None example_world =
     (Inr ''c1'',
      example_world\<lparr>issued := 1,
        sent := [(''%3'', SendText (buildWrapped ''c1'' ''echo hi; exit 0'' Bash))],
        commands := [(''c1'', \<lparr>id_c = ''c1'', paneId_c = ''%3'', command_c = ''echo hi; exit 0'',
                      startTime = 1000000, status = Pending, exitCode = None,
                      result = None, rawMode_c = False\<rparr>)]\<rparr>)"
  by (simp add: executeCommand_def example_world_def truthy_def decimal_1 Let_def)

lemma example_parse:
  "parse ''<<START:c1>> hi <<END:c1:0>>'' ''c1'' =
     \<lparr>parsed_found = True, parsed_output = Some ''hi'', parsed_exitCode = Some 0\<rparr>"
  by (simp add: parse_def startMarker_def endMarkerPrefix_def is_digit_def digits_value_def
        trim_def is_space_def Let_def)

lemma example_check:
  "checkCommandStatus (Some ''c1'') dispatched_world =
     (Inr (Some example_done), dispatched_world\<lparr>commands := [(''c1'', example_done)]\<rparr>)"
  by (simp add: dispatched_world_def example_dispatch checkCommandStatus_def example_done_def)
     (simp add: example_world_def example_parse Let_def)

lemma running_parse: "parse ''<<START:c1>> h'' ''c1'' = not_found"
  by (simp add: parse_def startMarker_def endMarkerPrefix_def)

lemma unknown_identifier:
  "map_of (commands w) ident = None \<Longrightarrow> checkCommandStatus (Some ident) w = (Inr None, w)"
  by (simp add: checkCommandStatus_def)

subsection \<open>The execute-command tool\<close>

text \<open>
  Claim C2. When \<open>noEnter\<close> is true the \<open>execute-command\<close> handler dispatches with raw
  mode true whatever \<open>rawMode\<close> was: the call it makes is \<open>executeCommand(paneId, command,
  true, true)\<close>. When that call returns an identifier the caller receives the raw-mode
  text for keys sent without Enter, which says that status tracking is disabled and
  names \<open>capture-pane\<close>, the pane and the identifier; when the call throws, the caller
  receives the error text. In neither case is the answer the text for a trackable
  command, whatever the resource URI. That text, which begins \<open>Command execution
  started\<close> and names the result resource to subscribe to, is the answer when neither
  \<open>noEnter\<close> nor \<open>rawMode\<close> is true.
\<close>

theorem noEnter_forces_raw_mode:
  "(noEnter = Some True \<longrightarrow>
      execute_command_tool dispatch paneId command rawMode noEnter w =
        (case dispatch paneId command (Some True) (Some True) w of
           (Inl (JsError message), w') \<Rightarrow>
             (\<lparr>content_text = ''Error executing command: ''
                  @ (if message = [] then ''Error'' else ''Error: '' @ message),
               isError = True\<rparr>, w')
         | (Inr commandId, w') \<Rightarrow>
             (\<lparr>content_text =
                 ''Keys sent without Enter.\<newline>\<newline>Status tracking is disabled.\<newline>Use ''
                   @ [CHR 0x27] @ ''capture-pane'' @ [CHR 0x27] @ '' with paneId '' @ [CHR 0x27]
                   @ paneId @ [CHR 0x27] @ '' to verify the command outcome.\<newline>\<newline>Command ID: ''
                   @ commandId,
               isError = False\<rparr>, w'))
      \<and> content_text (fst (execute_command_tool dispatch paneId command rawMode noEnter w))
          \<noteq> ''Command execution started.\<newline>\<newline>To get results, subscribe to and read resource: ''
              @ resourceUri @ ''\<newline>\<newline>Status will change from '' @ [CHR 0x27] @ ''pending''
              @ [CHR 0x27] @ '' to '' @ [CHR 0x27] @ ''completed'' @ [CHR 0x27] @ '' or ''
              @ [CHR 0x27] @ ''error'' @ [CHR 0x27] @ '' when finished.'')
   \<and> (noEnter \<noteq> Some True \<and> rawMode \<noteq> Some True \<longrightarrow>
      execute_command_tool dispatch paneId command rawMode noEnter w =
        (case dispatch paneId command rawMode noEnter w of
           (Inl (JsError message), w') \<Rightarrow>
             (\<lparr>content_text = ''Error executing command: ''
                  @ (if message = [] then ''Error'' else ''Error: '' @ message),
               isError = True\<rparr>, w')
         | (Inr commandId, w') \<Rightarrow>
             (\<lparr>content_text =
                 ''Command execution started.\<newline>\<newline>To get results, subscribe to and read resource: ''
                   @ ''tmux://command/'' @ commandId @ ''/result''
                   @ ''\<newline>\<newline>Status will change from '' @ [CHR 0x27] @ ''pending''
                   @ [CHR 0x27] @ '' to '' @ [CHR 0x27] @ ''completed'' @ [CHR 0x27] @ '' or ''
                   @ [CHR 0x27] @ ''error'' @ [CHR 0x27] @ '' when finished.'',
               isError = False\<rparr>, w')))"
proof (intro conjI impI)
  assume n: "noEnter = Some True"
  then have eff: "js_or noEnter rawMode = Some True" "truthy noEnter"
    by (simp_all add: js_or_def truthy_def)
  obtain r w1 where d: "dispatch paneId command (Some True) (Some True) w = (r, w1)"
    by (cases "dispatch paneId command (Some True) (Some True) w")
  show "execute_command_tool dispatch paneId command rawMode noEnter w =
        (case dispatch paneId command (Some True) (Some True) w of
           (Inl (JsError message), w') \<Rightarrow>
             (\<lparr>content_text = ''Error executing command: ''
                  @ (if message = [] then ''Error'' else ''Error: '' @ message),
               isError = True\<rparr>, w')
         | (Inr commandId, w') \<Rightarrow>
             (\<lparr>content_text =
                 ''Keys sent without Enter.\<newline>\<newline>Status tracking is disabled.\<newline>Use ''
                   @ [CHR 0x27] @ ''capture-pane'' @ [CHR 0x27] @ '' with paneId '' @ [CHR 0x27]
                   @ paneId @ [CHR 0x27] @ '' to verify the command outcome.\<newline>\<newline>Command ID: ''
                   @ commandId,
               isError = False\<rparr>, w'))"
  proof (cases r)
    case (Inl error)
    obtain message where "error = JsError message" by (cases error)
    with Inl d n eff show ?thesis
      by (simp add: execute_command_tool_def truthy_def)
  next
    case (Inr commandId)
    with d n eff show ?thesis
      by (simp add: execute_command_tool_def truthy_def)
  qed
  show "content_text (fst (execute_command_tool dispatch paneId command rawMode noEnter w))
          \<noteq> ''Command execution started.\<newline>\<newline>To get results, subscribe to and read resource: ''
              @ resourceUri @ ''\<newline>\<newline>Status will change from '' @ [CHR 0x27] @ ''pending''
              @ [CHR 0x27] @ '' to '' @ [CHR 0x27] @ ''completed'' @ [CHR 0x27] @ '' or ''
              @ [CHR 0x27] @ ''error'' @ [CHR 0x27] @ '' when finished.''"
  proof (cases r)
    case (Inl error)
    with d n eff show ?thesis
      by (simp add: execute_command_tool_def truthy_def)
  next
    case (Inr commandId)
    with d n eff show ?thesis
      by (simp add: execute_command_tool_def truthy_def)
  qed
next
  assume n: "noEnter \<noteq> Some True \<and> rawMode \<noteq> Some True"
  then have eff: "js_or noEnter rawMode = rawMode" "\<not> truthy rawMode"
    by (simp_all add: js_or_def truthy_def)
  obtain r w1 where d: "dispatch paneId command rawMode noEnter w = (r, w1)"
    by (cases "dispatch paneId command rawMode noEnter w")
  show "execute_command_tool dispatch paneId command rawMode noEnter w =
        (case dispatch paneId command rawMode noEnter w of
           (Inl (JsError message), w') \<Rightarrow>
             (\<lparr>content_text = ''Error executing command: ''
                  @ (if message = [] then ''Error'' else ''Error: '' @ message),
               isError = True\<rparr>, w')
         | (Inr commandId, w') \<Rightarrow>
             (\<lparr>content_text =
                 ''Command execution started.\<newline>\<newline>To get results, subscribe to and read resource: ''
                   @ ''tmux://command/'' @ commandId @ ''/result''
                   @ ''\<newline>\<newline>Status will change from '' @ [CHR 0x27] @ ''pending''
                   @ [CHR 0x27] @ '' to '' @ [CHR 0x27] @ ''completed'' @ [CHR 0x27] @ '' or ''
                   @ [CHR 0x27] @ ''error'' @ [CHR 0x27] @ '' when finished.'',
               isError = False\<rparr>, w'))"
  proof (cases r)
    case (Inl error)
    obtain message where "error = JsError message" by (cases error)
    with Inl d eff show ?thesis
      by (simp add: execute_command_tool_def)
  next
    case (Inr commandId)
    with d eff show ?thesis
      by (simp add: execute_command_tool_def)
  qed
qed

theorem noEnter_forces_raw_mode_witness:
  "content_text (fst (execute_command_tool executeCommand ''%3'' ''q'' (Some False) (Some True) example_world))
     = ''Keys sent without Enter.\<newline>\<newline>Status tracking is disabled.\<newline>Use '' @ [CHR 0x27]
         @ ''capture-pane'' @ [CHR 0x27] @ '' with paneId '' @ [CHR 0x27] @ ''%3'' @ [CHR 0x27]
         @ '' to verify the command outcome.\<newline>\<newline>Command ID: c1''
   \<and> sent (snd (execute_command_tool executeCommand ''%3'' ''q'' (Some False) (Some True) example_world))
     = [(''%3'', SendRawKeys ''q'')]
   \<and> map (rawMode_c \<circ> snd) (commands (snd (execute_command_tool executeCommand ''%3'' ''q'' (Some False) (Some True) example_world)))
     = [True]
   \<and> fst (execute_command_tool executeCommand ''%3'' ''q'' (Some False) (Some True)
            (example_world\<lparr>deliver := \<lambda>p k. Some (JsError ''no such pane'')\<rparr>))
     = \<lparr>content_text = ''Error executing command: Error: no such pane'', isError = True\<rparr>
   \<and> content_text (fst (execute_command_tool executeCommand ''%3'' ''q'' (Some False) None example_world))
     = ''Command execution started.\<newline>\<newline>To get results, subscribe to and read resource: tmux://command/c1/result\<newline>\<newline>Status will change from ''
         @ [CHR 0x27] @ ''pending'' @ [CHR 0x27] @ '' to '' @ [CHR 0x27] @ ''completed'' @ [CHR 0x27]
         @ '' or '' @ [CHR 0x27] @ ''error'' @ [CHR 0x27] @ '' when finished.''
   \<and> map (rawMode_c \<circ> snd) (commands (snd (execute_command_tool executeCommand ''%3'' ''q'' (Some False) None example_world)))
     = [False]"
  using noEnter_forces_raw_mode [of "Some True" executeCommand "''%3''" "''q''" "Some False" example_world "[]"]
        noEnter_forces_raw_mode [of "Some True" executeCommand "''%3''" "''q''" "Some False"
           "example_world\<lparr>deliver := \<lambda>p k. Some (JsError ''no such pane'')\<rparr>" "[]"]
        noEnter_forces_raw_mode [of None executeCommand "''%3''" "''q''" "Some False" example_world "[]"]
  by (simp add: executeCommand_def example_world_def truthy_def decimal_1 Let_def)

subsection \<open>Status requests\<close>

lemma result_text_cases:
  "result_text toISO c =
     (case status c of
        Pending \<Rightarrow>
          (case result c of
             None \<Rightarrow>
               ''Command still executing...\<newline>Started: '' @ toISO (startTime c)
                 @ ''\<newline>Command: '' @ command_c c
           | Some message \<Rightarrow>
               if message = [] then
                 ''Command still executing...\<newline>Started: '' @ toISO (startTime c)
                   @ ''\<newline>Command: '' @ command_c c
               else
                 ''Status: pending\<newline>Command: '' @ command_c c
                   @ ''\<newline>\<newline>--- Message ---\<newline>'' @ message)
      | Completed \<Rightarrow>
          ''Status: completed\<newline>Exit code: ''
            @ (case exitCode c of None \<Rightarrow> ''undefined'' | Some n \<Rightarrow> decimal n)
            @ ''\<newline>Command: '' @ command_c c @ ''\<newline>\<newline>--- Output ---\<newline>''
            @ (case result c of None \<Rightarrow> ''undefined'' | Some out \<Rightarrow> out)
      | Failed \<Rightarrow>
          ''Status: error\<newline>Exit code: ''
            @ (case exitCode c of None \<Rightarrow> ''undefined'' | Some n \<Rightarrow> decimal n)
            @ ''\<newline>Command: '' @ command_c c @ ''\<newline>\<newline>--- Output ---\<newline>''
            @ (case result c of None \<Rightarrow> ''undefined'' | Some out \<Rightarrow> out))"
  by (simp add: result_text_def truthy_string_def template_string_def template_number_def
        split: status.splits option.splits)

text \<open>
  Claim C3. Both status requests, the \<open>get-command-result\<close> tool and the point lookup of
  \<open>tmux://command/{commandId}/result\<close>, call \<open>checkCommandStatus\<close> on the identifier first:
  the world they leave behind is the world the status check leaves behind (so a
  transition made by the check is the read's side effect), and the text they return
  renders what the check has just returned: the error it threw, \<open>Command not found\<close>, or
  the command record as the check left it. The first line of a record's rendering tells
  its status: \<open>Status: completed\<close>, \<open>Status: error\<close>, and for a pending command \<open>Status:
  pending\<close> or, when it holds no message, \<open>Command still executing...\<close>.
\<close>

theorem status_request_checks_live:
  "snd (get_command_result_tool check toISO commandId w) = snd (check (Some commandId) w)
   \<and> content_text (fst (get_command_result_tool check toISO commandId w)) =
       (case fst (check (Some commandId) w) of
          Inl (JsError message) \<Rightarrow>
            ''Error retrieving command result: ''
              @ (if message = [] then ''Error'' else ''Error: '' @ message)
        | Inr None \<Rightarrow> ''Command not found: '' @ commandId
        | Inr (Some c) \<Rightarrow> result_text toISO c)
   \<and> snd (command_result_read check toISO href v w) = snd (check (first_value v) w)
   \<and> contents_text (fst (command_result_read check toISO href v w)) =
       (case fst (check (first_value v) w) of
          Inl (JsError message) \<Rightarrow>
            ''Error retrieving command result: ''
              @ (if message = [] then ''Error'' else ''Error: '' @ message)
        | Inr None \<Rightarrow>
            ''Command not found: '' @ (case first_value v of None \<Rightarrow> ''undefined'' | Some i \<Rightarrow> i)
        | Inr (Some c) \<Rightarrow> result_text toISO c)
   \<and> (case status c of
         Pending \<Rightarrow>
           if result c = None \<or> result c = Some []
           then prefix ''Command still executing...\<newline>'' (result_text toISO c)
           else prefix ''Status: pending\<newline>'' (result_text toISO c)
       | Completed \<Rightarrow> prefix ''Status: completed\<newline>'' (result_text toISO c)
       | Failed \<Rightarrow> prefix ''Status: error\<newline>'' (result_text toISO c))"
proof -
  obtain r1 w1 where c1: "check (Some commandId) w = (r1, w1)"
    by (cases "check (Some commandId) w")
  obtain r2 w2 where c2: "check (first_value v) w = (r2, w2)"
    by (cases "check (first_value v) w")
  have handlers:
    "snd (get_command_result_tool check toISO commandId w) = snd (check (Some commandId) w)
   \<and> content_text (fst (get_command_result_tool check toISO commandId w)) =
       (case fst (check (Some commandId) w) of
          Inl (JsError message) \<Rightarrow>
            ''Error retrieving command result: ''
              @ (if message = [] then ''Error'' else ''Error: '' @ message)
        | Inr None \<Rightarrow> ''Command not found: '' @ commandId
        | Inr (Some c) \<Rightarrow> result_text toISO c)
   \<and> snd (command_result_read check toISO href v w) = snd (check (first_value v) w)
   \<and> contents_text (fst (command_result_read check toISO href v w)) =
       (case fst (check (first_value v) w) of
          Inl (JsError message) \<Rightarrow>
            ''Error retrieving command result: ''
              @ (if message = [] then ''Error'' else ''Error: '' @ message)
        | Inr None \<Rightarrow>
            ''Command not found: '' @ (case first_value v of None \<Rightarrow> ''undefined'' | Some i \<Rightarrow> i)
        | Inr (Some c) \<Rightarrow> result_text toISO c)"
    by (simp add: get_command_result_tool_def command_result_read_def Let_def c1 c2
             template_string_def split: sum.splits option.splits exn.splits)
  have line: "(case status c of
         Pending \<Rightarrow>
           if result c = None \<or> result c = Some []
           then prefix ''Command still executing...\<newline>'' (result_text toISO c)
           else prefix ''Status: pending\<newline>'' (result_text toISO c)
       | Completed \<Rightarrow> prefix ''Status: completed\<newline>'' (result_text toISO c)
       | Failed \<Rightarrow> prefix ''Status: error\<newline>'' (result_text toISO c))"
    by (simp add: result_text_def truthy_string_def template_string_def
          split: status.splits option.splits)
  from handlers line show ?thesis
    by (simp only: simp_thms)
qed

theorem status_request_checks_live_witness:
  "map (status \<circ> snd) (commands dispatched_world) = [Pending]
   \<and> content_text (fst (get_command_result_tool checkCommandStatus (\<lambda>t. ''T'') ''c1'' dispatched_world))
     = ''Status: completed\<newline>Exit code: 0\<newline>Command: echo hi; exit 0\<newline>\<newline>--- Output ---\<newline>hi''
   \<and> map (status \<circ> snd)
        (commands (snd (get_command_result_tool checkCommandStatus (\<lambda>t. ''T'') ''c1'' dispatched_world)))
     = [Completed]
   \<and> contents_text (fst (command_result_read checkCommandStatus (\<lambda>t. ''T'') ''tmux://command/c1/result''
          (Single ''c1'') dispatched_world))
     = ''Status: completed\<newline>Exit code: 0\<newline>Command: echo hi; exit 0\<newline>\<newline>--- Output ---\<newline>hi''
   \<and> map (status \<circ> snd)
        (commands (snd (command_result_read checkCommandStatus (\<lambda>t. ''T'') ''tmux://command/c1/result''
          (Single ''c1'') dispatched_world)))
     = [Completed]
   \<and> contents_text (fst (command_result_read checkCommandStatus (\<lambda>t. ''T'') ''tmux://command/c1/result''
          (Single ''c1'') running_world))
     = ''Command still executing...\<newline>Started: T\<newline>Command: echo hi; exit 0''
   \<and> map (status \<circ> snd)
        (commands (snd (command_result_read checkCommandStatus (\<lambda>t. ''T'') ''tmux://command/c1/result''
          (Single ''c1'') running_world)))
     = [Pending]"
proof -
  let ?running = "\<lparr>id_c = ''c1'', paneId_c = ''%3'', command_c = ''echo hi; exit 0'',
                      startTime = 1000000, status = Pending, exitCode = None,
                      result = None, rawMode_c = False\<rparr>"
  have pend: "map (status \<circ> snd) (commands dispatched_world) = [Pending]"
    by (simp add: dispatched_world_def example_dispatch)
  have rendered: "result_text (\<lambda>t. ''T'') example_done
       = ''Status: completed\<newline>Exit code: 0\<newline>Command: echo hi; exit 0\<newline>\<newline>--- Output ---\<newline>hi''"
    by (simp add: result_text_def example_done_def template_number_def template_string_def
          decimal_0)
  have waiting: "result_text (\<lambda>t. ''T'') ?running
       = ''Command still executing...\<newline>Started: T\<newline>Command: echo hi; exit 0''"
    by (simp add: result_text_def truthy_string_def)
  have running: "checkCommandStatus (Some ''c1'') running_world = (Inr (Some ?running), running_world)"
    by (simp add: running_world_def dispatched_world_def example_dispatch checkCommandStatus_def)
       (simp add: example_world_def running_parse not_found_def)
  have still: "map (status \<circ> snd) (commands running_world) = [Pending]"
    by (simp add: running_world_def pend)
  have finished: "map (status \<circ> snd) (commands (dispatched_world\<lparr>commands := [(''c1'', example_done)]\<rparr>))
                    = [Completed]"
    by (simp add: example_done_def)
  from status_request_checks_live
         [of checkCommandStatus "\<lambda>t. ''T''" "''c1''" dispatched_world
             "''tmux://command/c1/result''" "Single ''c1''" example_done]
  have a: "content_text (fst (get_command_result_tool checkCommandStatus (\<lambda>t. ''T'') ''c1'' dispatched_world))
             = result_text (\<lambda>t. ''T'') example_done"
    "snd (get_command_result_tool checkCommandStatus (\<lambda>t. ''T'') ''c1'' dispatched_world)
             = dispatched_world\<lparr>commands := [(''c1'', example_done)]\<rparr>"
    "contents_text (fst (command_result_read checkCommandStatus (\<lambda>t. ''T'') ''tmux://command/c1/result''
          (Single ''c1'') dispatched_world)) = result_text (\<lambda>t. ''T'') example_done"
    "snd (command_result_read checkCommandStatus (\<lambda>t. ''T'') ''tmux://command/c1/result''
          (Single ''c1'') dispatched_world) = dispatched_world\<lparr>commands := [(''c1'', example_done)]\<rparr>"
    by (simp_all add: example_check)
  from status_request_checks_live
         [of checkCommandStatus "\<lambda>t. ''T''" "''c1''" running_world
             "''tmux://command/c1/result''" "Single ''c1''" example_done]
  have b: "contents_text (fst (command_result_read checkCommandStatus (\<lambda>t. ''T'') ''tmux://command/c1/result''
          (Single ''c1'') running_world)) = result_text (\<lambda>t. ''T'') ?running"
    "snd (command_result_read checkCommandStatus (\<lambda>t. ''T'') ''tmux://command/c1/result''
          (Single ''c1'') running_world) = running_world"
    by (simp_all add: running)
  show ?thesis
    unfolding a b rendered waiting finished still pend by simp
qed

lemma template_number_inject:
  assumes "(case a of None \<Rightarrow> ''undefined'' | Some n \<Rightarrow> decimal n)
             = (case b of None \<Rightarrow> ''undefined'' | Some n \<Rightarrow> decimal n)"
  shows "a = b"
proof -
  have no: "decimal n \<noteq> ''undefined''" for n
  proof
    assume "decimal n = ''undefined''"
    then have "CHR ''u'' \<in> set (decimal n)" by simp
    then have "is_digit (CHR ''u'')" by (rule decimal_digits)
    then show False by (simp add: is_digit_def)
  qed
  show ?thesis
  proof (cases a)
    case None
    with assms no show ?thesis by (cases b) auto
  next
    case (Some n)
    with assms no show ?thesis by (cases b) (auto dest: decimal_inject)
  qed
qed

lemma result_text_exit_code:
  assumes "status c \<noteq> Pending" "e \<noteq> exitCode c"
  shows "result_text toISO (c\<lparr>exitCode := e\<rparr>) \<noteq> result_text toISO c"
proof
  assume same: "result_text toISO (c\<lparr>exitCode := e\<rparr>) = result_text toISO c"
  let ?n = "\<lambda>x. (case x of None \<Rightarrow> ''undefined'' | Some n \<Rightarrow> decimal n)"
  let ?rest = "''\<newline>Command: '' @ command_c c @ ''\<newline>\<newline>--- Output ---\<newline>''
            @ (case result c of None \<Rightarrow> ''undefined'' | Some out \<Rightarrow> out)"
  from same assms(1) have "?n e @ ?rest = ?n (exitCode c) @ ?rest"
    by (cases "status c") (simp_all add: result_text_cases)
  then have "?n e = ?n (exitCode c)"
    by (simp only: append_same_eq)
  then have "e = exitCode c" by (rule template_number_inject)
  with assms(2) show False by simp
qed

lemma decimal_127: "decimal 127 = ''127''"
  by code_simp

text \<open>
  Claim C5. When the status check returns a command record, both status requests answer
  with its rendering. For a pending command the rendering is the command text with the
  advisory message, if the record holds a non-empty one, and otherwise the
  still-executing notice with the start time and the command text; in both cases it
  does not depend on the exit code. For a completed or failed command it is the status,
  the exit code in decimal, the command text and the captured output; a different exit
  code gives a different rendering.
\<close>

theorem status_rendering:
  assumes "fst (check (Some commandId) w) = Inr (Some c)"
      and "first_value v = Some commandId"
  shows "content_text (fst (get_command_result_tool check toISO commandId w)) = result_text toISO c
       \<and> contents_text (fst (command_result_read check toISO href v w)) = result_text toISO c
       \<and> result_text toISO c =
           (case status c of
              Pending \<Rightarrow>
                (case result c of
                   None \<Rightarrow>
                     ''Command still executing...\<newline>Started: '' @ toISO (startTime c)
                       @ ''\<newline>Command: '' @ command_c c
                 | Some message \<Rightarrow>
                     if message = [] then
                       ''Command still executing...\<newline>Started: '' @ toISO (startTime c)
                         @ ''\<newline>Command: '' @ command_c c
                     else
                       ''Status: pending\<newline>Command: '' @ command_c c
                         @ ''\<newline>\<newline>--- Message ---\<newline>'' @ message)
            | Completed \<Rightarrow>
                ''Status: completed\<newline>Exit code: ''
                  @ (case exitCode c of None \<Rightarrow> ''undefined'' | Some n \<Rightarrow> decimal n)
                  @ ''\<newline>Command: '' @ command_c c @ ''\<newline>\<newline>--- Output ---\<newline>''
                  @ (case result c of None \<Rightarrow> ''undefined'' | Some out \<Rightarrow> out)
            | Failed \<Rightarrow>
                ''Status: error\<newline>Exit code: ''
                  @ (case exitCode c of None \<Rightarrow> ''undefined'' | Some n \<Rightarrow> decimal n)
                  @ ''\<newline>Command: '' @ command_c c @ ''\<newline>\<newline>--- Output ---\<newline>''
                  @ (case result c of None \<Rightarrow> ''undefined'' | Some out \<Rightarrow> out))
       \<and> (status c = Pending \<longrightarrow> result_text toISO (c\<lparr>exitCode := e\<rparr>) = result_text toISO c)
       \<and> (status c \<noteq> Pending \<and> e \<noteq> exitCode c \<longrightarrow>
            result_text toISO (c\<lparr>exitCode := e\<rparr>) \<noteq> result_text toISO c)"
proof -
  obtain w1 where c1: "check (Some commandId) w = (Inr (Some c), w1)"
    using assms(1) by (cases "check (Some commandId) w") simp
  have t: "content_text (fst (get_command_result_tool check toISO commandId w)) = result_text toISO c"
    by (simp add: get_command_result_tool_def c1)
  have r: "contents_text (fst (command_result_read check toISO href v w)) = result_text toISO c"
    by (simp add: command_result_read_def assms(2) c1)
  have p: "status c = Pending \<longrightarrow> result_text toISO (c\<lparr>exitCode := e\<rparr>) = result_text toISO c"
    by (simp add: result_text_def)
  have d: "status c \<noteq> Pending \<and> e \<noteq> exitCode c \<longrightarrow>
            result_text toISO (c\<lparr>exitCode := e\<rparr>) \<noteq> result_text toISO c"
    using result_text_exit_code [of c e toISO] by blast
  have lit: "result_text toISO c =
           (case status c of
              Pending \<Rightarrow>
                (case result c of
                   None \<Rightarrow>
                     ''Command still executing...\<newline>Started: '' @ toISO (startTime c)
                       @ ''\<newline>Command: '' @ command_c c
                 | Some message \<Rightarrow>
                     if message = [] then
                       ''Command still executing...\<newline>Started: '' @ toISO (startTime c)
                         @ ''\<newline>Command: '' @ command_c c
                     else
                       ''Status: pending\<newline>Command: '' @ command_c c
                         @ ''\<newline>\<newline>--- Message ---\<newline>'' @ message)
            | Completed \<Rightarrow>
                ''Status: completed\<newline>Exit code: ''
                  @ (case exitCode c of None \<Rightarrow> ''undefined'' | Some n \<Rightarrow> decimal n)
                  @ ''\<newline>Command: '' @ command_c c @ ''\<newline>\<newline>--- Output ---\<newline>''
                  @ (case result c of None \<Rightarrow> ''undefined'' | Some out \<Rightarrow> out)
            | Failed \<Rightarrow>
                ''Status: error\<newline>Exit code: ''
                  @ (case exitCode c of None \<Rightarrow> ''undefined'' | Some n \<Rightarrow> decimal n)
                  @ ''\<newline>Command: '' @ command_c c @ ''\<newline>\<newline>--- Output ---\<newline>''
                  @ (case result c of None \<Rightarrow> ''undefined'' | Some out \<Rightarrow> out))"
    by (simp add: result_text_def truthy_string_def template_string_def template_number_def
          split: status.splits option.splits)
  show ?thesis
    by (intro conjI t r p d lit)
qed

theorem status_rendering_witness:
  "content_text (fst (get_command_result_tool (\<lambda>i s. (Inr (Some failed_example), s)) (\<lambda>t. ''T'')
          ''c7'' (0::nat)))
     = ''Status: error\<newline>Exit code: 127\<newline>Command: mke all\<newline>\<newline>--- Output ---\<newline>mke: command not found''
   \<and> contents_text (fst (command_result_read (\<lambda>i s. (Inr (Some failed_example), s)) (\<lambda>t. ''T'')
          ''tmux://command/c7/result'' (Many [''c7'', ''c8'']) (0::nat)))
     = ''Status: error\<newline>Exit code: 127\<newline>Command: mke all\<newline>\<newline>--- Output ---\<newline>mke: command not found''
   \<and> content_text (fst (get_command_result_tool
          (\<lambda>i s. (Inr (Some (failed_example\<lparr>status := Pending, exitCode := None,
                                 result := Some ''raw mode - tracking disabled''\<rparr>)), s))
          (\<lambda>t. ''T'') ''c7'' (0::nat)))
     = ''Status: pending\<newline>Command: mke all\<newline>\<newline>--- Message ---\<newline>raw mode - tracking disabled''"
proof -
  let ?pending = "failed_example\<lparr>status := Pending, exitCode := None,
                     result := Some ''raw mode - tracking disabled''\<rparr>"
  have v: "first_value (Many [''c7'', ''c8'']) = Some ''c7''"
    by simp
  have failed: "result_text (\<lambda>t. ''T'') failed_example
     = ''Status: error\<newline>Exit code: 127\<newline>Command: mke all\<newline>\<newline>--- Output ---\<newline>mke: command not found''"
    by (simp add: failed_example_def decimal_127 result_text_def template_string_def
          template_number_def)
  have pending: "result_text (\<lambda>t. ''T'') ?pending
     = ''Status: pending\<newline>Command: mke all\<newline>\<newline>--- Message ---\<newline>raw mode - tracking disabled''"
    by (simp add: failed_example_def result_text_def truthy_string_def template_string_def)
  from status_rendering
         [of "\<lambda>i s. (Inr (Some failed_example), s)" "''c7''" "0::nat" failed_example
             "Many [''c7'', ''c8'']" "\<lambda>t. ''T''" "''tmux://command/c7/result''" None]
       v
  have a: "content_text (fst (get_command_result_tool (\<lambda>i s. (Inr (Some failed_example), s))
             (\<lambda>t. ''T'') ''c7'' (0::nat))) = result_text (\<lambda>t. ''T'') failed_example"
    "contents_text (fst (command_result_read (\<lambda>i s. (Inr (Some failed_example), s)) (\<lambda>t. ''T'')
          ''tmux://command/c7/result'' (Many [''c7'', ''c8'']) (0::nat)))
       = result_text (\<lambda>t. ''T'') failed_example"
    by simp_all
  from status_rendering
         [of "\<lambda>i s. (Inr (Some ?pending), s)" "''c7''" "0::nat" ?pending
             "Many [''c7'', ''c8'']" "\<lambda>t. ''T''" "''tmux://command/c7/result''" None]
       v
  have b: "content_text (fst (get_command_result_tool (\<lambda>i s. (Inr (Some ?pending), s))
             (\<lambda>t. ''T'') ''c7'' (0::nat))) = result_text (\<lambda>t. ''T'') ?pending"
    by simp
  show ?thesis
    unfolding a b failed pending by simp
qed

text \<open>
  Claim C6, as amended. When the status check has no record of the identifier, both
  status requests answer with the text \<open>Command not found: {id}\<close>; the handlers are
  total, nothing is thrown. The resource read returns the text as ordinary contents;
  the \<open>get-command-result\<close> tool returns it with \<open>isError: true\<close>, the flag it also sets
  when the status check throws.
\<close>

theorem not_found_response:
  assumes "fst (check (Some commandId) w) = Inr None"
      and "first_value v = Some commandId"
  shows "fst (get_command_result_tool check toISO commandId w)
           = \<lparr>content_text = ''Command not found: '' @ commandId, isError = True\<rparr>
       \<and> fst (command_result_read check toISO href v w)
           = \<lparr>contents_uri = href, contents_text = ''Command not found: '' @ commandId\<rparr>"
proof -
  obtain w1 where c1: "check (Some commandId) w = (Inr None, w1)"
    using assms(1) by (cases "check (Some commandId) w") simp
  show ?thesis
    by (simp add: get_command_result_tool_def command_result_read_def assms(2) c1
          template_string_def)
qed

theorem not_found_response_witness:
  "fst (checkCommandStatus (Some ''c9'') example_world) = Inr None
   \<and> first_value (Single ''c9'') = Some ''c9''
   \<and> fst (get_command_result_tool checkCommandStatus (\<lambda>t. []) ''c9'' example_world)
       = \<lparr>content_text = ''Command not found: c9'', isError = True\<rparr>
   \<and> fst (command_result_read checkCommandStatus (\<lambda>t. []) ''tmux://command/c9/result''
          (Single ''c9'') example_world)
       = \<lparr>contents_uri = ''tmux://command/c9/result'', contents_text = ''Command not found: c9''\<rparr>"
proof -
  have h1: "fst (checkCommandStatus (Some ''c9'') example_world) = Inr None"
    by (simp add: unknown_identifier example_world_def)
  have h2: "first_value (Single ''c9'') = Some ''c9''"
    by simp
  from not_found_response [of checkCommandStatus "''c9''" example_world "Single ''c9''"
         "\<lambda>t. []" "''tmux://command/c9/result''"] h1 h2
  show ?thesis by simp
qed

text \<open>
  The claim as stated calls the answer an ordinary rendering; for an identifier the
  registry has never held, the tool's answer carries the error flag.
\<close>

theorem not_found_tool_flags_error:
  "isError (fst (get_command_result_tool checkCommandStatus (\<lambda>t. []) ''c9'' example_world))"
  by (simp add: get_command_result_tool_def unknown_identifier example_world_def)

subsection \<open>The pane-content resource\<close>

text \<open>
  Claim C7. The point lookup of \<open>tmux://pane/{paneId}\<close> calls \<open>capturePaneContent(paneId, 200,
  false)\<close>: 200 lines, colours off, whatever the pane identifier. The handler takes
  nothing but the URI and its variables, and two capture operations that agree on
  200-line colourless captures give the same response.
\<close>

theorem pane_read_fixed_window:
  "pane_content_read cap href v w =
     (case cap (first_value v) (Some 200) (Some False) w of
        (Inl error, w') \<Rightarrow>
          (\<lparr>contents_uri = href,
            contents_text = ''Error capturing pane content: '' @ error_string error\<rparr>, w')
      | (Inr content, w') \<Rightarrow>
          (\<lparr>contents_uri = href,
            contents_text = (if content = [] then ''No content captured'' else content)\<rparr>, w'))
   \<and> ((\<forall>p s. cap p (Some 200) (Some False) s = cap' p (Some 200) (Some False) s) \<longrightarrow>
        pane_content_read cap href v w = pane_content_read cap' href v w)"
  by (simp add: pane_content_read_def Let_def split: prod.splits sum.splits)

theorem pane_read_fixed_window_witness:
  "pane_content_read (\<lambda>p n c s. (Inr ''$ ls'', s @ [(p, n, c)])) ''tmux://pane/%251'' (Single ''%1'') []
     = (\<lparr>contents_uri = ''tmux://pane/%251'', contents_text = ''$ ls''\<rparr>,
        [(Some ''%1'', Some 200, Some False)])
   \<and> pane_content_read (\<lambda>p n c s. (Inr (if n = Some 200 \<and> c = Some False then ''$ ls'' else ''other''), s))
        ''tmux://pane/%251'' (Single ''%1'') (0::nat)
     = pane_content_read (\<lambda>p n c s. (Inr ''$ ls'', s)) ''tmux://pane/%251'' (Single ''%1'') 0"
proof -
  have same: "\<forall>p s. (\<lambda>p n c s. (Inr (if n = Some 200 \<and> c = Some False then ''$ ls'' else ''other''), s))
                 p (Some 200) (Some False) s
            = (\<lambda>p n c s. (Inr ''$ ls'', s::nat)) (p::string option) (Some 200) (Some False) s"
    by simp
  from pane_read_fixed_window
         [of "\<lambda>p n c s. (Inr ''$ ls'', s @ [(p, n, c)])" "''tmux://pane/%251''" "Single ''%1''" "[]"]
       pane_read_fixed_window
         [of "\<lambda>p n c s. (Inr (if n = Some 200 \<and> c = Some False then ''$ ls'' else ''other''), s)"
             "''tmux://pane/%251''" "Single ''%1''" "0::nat" "\<lambda>p n c s. (Inr ''$ ls'', s)"]
       same
  show ?thesis by (simp add: pane_content_read_def)
qed

subsection \<open>The registry\<close>

lemma identifier_no_space:
  assumes "c \<in> set (''c'' @ decimal k)"
  shows "\<not> is_space c"
proof -
  from assms have "c = CHR ''c'' \<or> c \<in> set (decimal k)" by simp
  then show ?thesis
  proof
    assume "c = CHR ''c''"
    then show ?thesis by (simp add: is_space_def)
  next
    assume "c \<in> set (decimal k)"
    then show ?thesis by (intro digit_not_space decimal_digits)
  qed
qed

lemma identifier_plain: "CHR ''<'' \<notin> set (''c'' @ decimal k)"
proof
  assume "CHR ''<'' \<in> set (''c'' @ decimal k)"
  then have "CHR ''<'' \<in> set (decimal k)" by simp
  then have "is_digit (CHR ''<'')" by (rule decimal_digits)
  then show False by (simp add: is_digit_def)
qed

lemma fresh_identifier:
  assumes "registry_ok w"
  shows "map_of (commands w) (''c'' @ decimal (Suc (issued w))) = None"
proof -
  have "''c'' @ decimal (Suc (issued w)) \<notin> set (issued_ids w)"
    by (auto simp: issued_ids_def dest: decimal_inject)
  with assms have "''c'' @ decimal (Suc (issued w)) \<notin> fst ` set (commands w)"
    by (auto simp: registry_ok_def list_all_iff)
  then show ?thesis by (simp add: map_of_eq_None_iff)
qed

lemma registry_ok_start: "commands w = [] \<Longrightarrow> registry_ok w"
  by (simp add: registry_ok_def)

lemma registry_ok_execute:
  assumes "registry_ok w"
  shows "registry_ok (snd (executeCommand paneId commandText rawMode noEnter w))"
proof -
  let ?new = "''c'' @ decimal (Suc (issued w))"
  have sub: "set (issued_ids w) \<subseteq> set (issued_ids (w\<lparr>issued := Suc (issued w)\<rparr>))"
    by (auto simp: issued_ids_def)
  have new: "?new \<in> set (issued_ids (w\<lparr>issued := Suc (issued w)\<rparr>))"
    by (simp add: issued_ids_def)
  have ids: "issued_ids (w\<lparr>issued := n, sent := s, commands := cs\<rparr>) = issued_ids (w\<lparr>issued := n\<rparr>)" for n s cs
    by (simp add: issued_ids_def)
  from fresh_identifier [OF assms] have fresh: "?new \<notin> fst ` set (commands w)"
    by (simp add: map_of_eq_None_iff)
  from assms sub new fresh show ?thesis
    by (auto simp: executeCommand_def Let_def registry_ok_def list_all_iff ids
             split: option.splits)
qed

lemma registry_ok_keys:
  "registry_ok w =
     (distinct (map fst (commands w)) \<and> fst ` set (commands w) \<subseteq> set (issued_ids w))"
  by (auto simp: registry_ok_def list_all_iff)

lemma registry_ok_update:
  assumes "registry_ok w" "map_of (commands w) ident = Some c"
  shows "registry_ok (w\<lparr>commands := AList.update ident c' (commands w)\<rparr>)"
proof -
  from assms(2) have "ident \<in> fst ` set (commands w)"
    by (metis map_of_eq_None_iff option.distinct(1))
  with assms(1) show ?thesis
    by (auto simp: registry_ok_keys dom_update distinct_update issued_ids_def)
qed

lemma registry_ok_check:
  assumes "registry_ok w"
  shows "registry_ok (snd (checkCommandStatus commandId w))"
  using assms registry_ok_update [OF assms]
  by (auto simp: checkCommandStatus_def Let_def split: option.splits sum.splits bool.splits)

lemma registry_ok_cleanup:
  "registry_ok w \<Longrightarrow> registry_ok (cleanupOldCommands maxAgeMinutes w)"
  by (auto simp: registry_ok_def cleanupOldCommands_def list_all_iff issued_ids_def
        distinct_map_filter)

subsection \<open>The marker protocol\<close>

lemma end_prefix_no_space:
  assumes "\<forall>c\<in>set ident. \<not> is_space c"
  shows "endMarkerPrefix ident \<noteq> []" and "\<forall>c\<in>set (endMarkerPrefix ident). \<not> is_space c"
  using assms by (auto simp: endMarkerPrefix_def is_space_def)

lemma parse_at:
  assumes "indexOf (startMarker ident) captured = Some i"
      and "indexOf (endMarkerPrefix ident) (drop (i + length (startMarker ident)) captured) = Some j"
      and "drop (j + length (endMarkerPrefix ident)) (drop (i + length (startMarker ident)) captured)
             = ds @ ''>>'' @ post"
      and "ds \<noteq> []" "\<forall>c\<in>set ds. is_digit c"
  shows "parse captured ident =
           \<lparr>parsed_found = True,
            parsed_output = Some (trim (take j (drop (i + length (startMarker ident)) captured))),
            parsed_exitCode = Some (digits_value ds)\<rparr>"
proof -
  have tw: "takeWhile is_digit (ds @ CHR ''>'' # CHR ''>'' # post) = ds"
    using assms(5) by (simp add: is_digit_def)
  have dw: "dropWhile is_digit (ds @ CHR ''>'' # CHR ''>'' # post) = CHR ''>'' # CHR ''>'' # post"
    using assms(5) by (simp add: is_digit_def)
  show ?thesis
    by (simp add: parse_def Let_def assms(1,2,3,4) tw dw del: drop_drop)
qed

lemma parse_between:
  assumes plain: "CHR ''<'' \<notin> set ident" "\<forall>c\<in>set ident. \<not> is_space c"
      and ws: "\<forall>c\<in>set ws1. is_space c" "\<forall>c\<in>set ws2. is_space c"
      and out: "\<not> sublist (endMarkerPrefix ident) out"
      and ds: "ds \<noteq> []" "\<forall>c\<in>set ds. is_digit c"
  shows "parse (startMarker ident @ ws1 @ out @ ws2 @ endMarker ident ds @ post) ident =
           \<lparr>parsed_found = True, parsed_output = Some (trim (ws1 @ out @ ws2)),
            parsed_exitCode = Some (digits_value ds)\<rparr>"
proof -
  let ?s = "startMarker ident"
  let ?p = "endMarkerPrefix ident"
  let ?A = "ws1 @ out @ ws2"
  let ?tail = "ds @ ''>>'' @ post"
  let ?captured = "?s @ ?A @ ?p @ ?tail"
  have shape: "?s @ ws1 @ out @ ws2 @ endMarker ident ds @ post = ?captured"
    by (simp add: endMarker_def)
  have i: "indexOf ?s ?captured = Some 0"
    by (rule indexOf_here)
  have rest: "drop (0 + length ?s) ?captured = ?A @ ?p @ ?tail"
    by simp
  have "\<not> sublist ?p ?A"
    using sublist_between_spaces [OF end_prefix_no_space [OF plain(2)] ws] out by blast
  then have "\<forall>k<length ?A. \<not> prefix ?p (drop k (?A @ ?p @ ?tail))"
    by (rule no_match_before [OF plain(1)])
  then have "indexOf ?p (?A @ ?p @ ?tail) = Some (length ?A)"
    by (rule indexOf_first)
  then have j: "indexOf ?p (drop (0 + length ?s) ?captured) = Some (length ?A)"
    by (simp only: rest)
  have after: "drop (length ?A + length ?p) (drop (0 + length ?s) ?captured) = ?tail"
    by simp
  have tk: "take (length ?A) (drop (0 + length ?s) ?captured) = ?A"
    by simp
  show ?thesis
    unfolding shape using parse_at [OF i j after ds] by (simp only: tk)
qed

lemma strip_prefix_append: "strip_prefix p (p @ s) = Some s"
  by (simp add: strip_prefix_def)

lemma take_quote_free:
  assumes "CHR 0x22 \<notin> set a"
  shows "takeWhile (\<lambda>c. c \<noteq> CHR 0x22) (a @ CHR 0x22 # rest) = a"
    and "dropWhile (\<lambda>c. c \<noteq> CHR 0x22) (a @ CHR 0x22 # rest) = CHR 0x22 # rest"
proof -
  have all: "\<forall>c\<in>set a. c \<noteq> CHR 0x22" using assms by auto
  then show "takeWhile (\<lambda>c. c \<noteq> CHR 0x22) (a @ CHR 0x22 # rest) = a"
    by (simp add: takeWhile_tail)
  from all show "dropWhile (\<lambda>c. c \<noteq> CHR 0x22) (a @ CHR 0x22 # rest) = CHR 0x22 # rest"
    by (simp add: dropWhile_append3)
qed

lemma submitted_wrapped:
  assumes "CHR 0x22 \<notin> set a" "CHR 0x22 \<notin> set b"
  shows "submitted_statements
           (''echo '' @ [CHR 0x22] @ a @ [CHR 0x22] @ ''; '' @ commandText
              @ ''; echo '' @ [CHR 0x22] @ b @ [CHR 0x22] @ ''\<newline>'')
         = Some (a, commandText, b)"
proof -
  let ?q = "CHR 0x22"
  let ?r2 = "commandText @ ''; echo '' @ [?q] @ b @ [?q] @ ''\<newline>''"
  let ?r1 = "a @ ?q # ''; '' @ ?r2"
  have l: "''echo '' @ [?q] @ a @ [?q] @ ''; '' @ commandText
              @ ''; echo '' @ [?q] @ b @ [?q] @ ''\<newline>'' = (''echo '' @ [?q]) @ ?r1"
    by simp
  have s1: "strip_prefix (''echo '' @ [?q]) ((''echo '' @ [?q]) @ ?r1) = Some ?r1"
    by (rule strip_prefix_append)
  have s2: "strip_prefix ([?q] @ ''; '') (dropWhile (\<lambda>c. c \<noteq> ?q) ?r1) = Some ?r2"
    unfolding take_quote_free(2) [OF assms(1)] using strip_prefix_append [of "[?q] @ ''; ''" ?r2]
    by simp
  let ?r3 = "rev b @ ?q # rev (commandText @ ''; echo '')"
  have rv: "rev ?r2 = rev ([?q] @ ''\<newline>'') @ ?r3"
    by simp
  have s3: "strip_prefix (rev ([?q] @ ''\<newline>'')) (rev ?r2) = Some ?r3"
    unfolding rv by (rule strip_prefix_append)
  have nb: "?q \<notin> set (rev b)" using assms(2) by simp
  have d3: "dropWhile (\<lambda>c. c \<noteq> ?q) ?r3 = rev (''; echo '' @ [?q]) @ rev commandText"
    unfolding take_quote_free(2) [OF nb] by simp
  have s4: "strip_prefix (rev (''; echo '' @ [?q])) (dropWhile (\<lambda>c. c \<noteq> ?q) ?r3) = Some (rev commandText)"
    unfolding d3 by (rule strip_prefix_append)
  have t1: "takeWhile (\<lambda>c. c \<noteq> ?q) ?r1 = a"
    by (rule take_quote_free(1) [OF assms(1)])
  have t3: "takeWhile (\<lambda>c. c \<noteq> ?q) ?r3 = rev b"
    by (rule take_quote_free(1) [OF nb])
  show ?thesis
    unfolding l submitted_statements_def s1 option.case s2 s3 s4 t1 t3 by simp
qed

lemma identifier_chars:
  assumes "c \<in> set (''c'' @ decimal k)"
  shows "c = CHR ''c'' \<or> is_digit c"
  using assms decimal_digits by auto

lemma identifier_no_quote: "CHR 0x22 \<notin> set (''c'' @ decimal k)"
  using identifier_chars [of "CHR 0x22" k] by (auto simp: is_digit_def)

lemma identifier_no_dollar: "CHR ''$'' \<notin> set (''c'' @ decimal k)"
  using identifier_chars [of "CHR ''$''" k] by (auto simp: is_digit_def)

lemma markers_quote_free:
  assumes "CHR 0x22 \<notin> set ident"
  shows "CHR 0x22 \<notin> set (startMarker ident)"
    and "CHR 0x22 \<notin> set (endMarker ident (exit_status_idiom sh))"
  using assms by (cases sh; simp add: startMarker_def endMarker_def endMarkerPrefix_def)+

lemma idiom_shape: "\<exists>rest. exit_status_idiom sh = CHR ''$'' # rest"
  by (cases sh) simp_all

lemma expand_end_marker:
  assumes "CHR ''$'' \<notin> set ident"
  shows "expand_status sh n (endMarker ident (exit_status_idiom sh)) = endMarker ident (decimal n)"
proof -
  let ?pre = "endMarkerPrefix ident"
  let ?i = "exit_status_idiom sh"
  obtain rest where i: "?i = CHR ''$'' # rest" using idiom_shape by blast
  have pre: "CHR ''$'' \<notin> set ?pre"
    using assms by (simp add: endMarkerPrefix_def)
  have "\<forall>k<length ?pre. \<not> prefix ?i (drop k (?pre @ ?i @ ''>>''))"
  proof (intro allI impI notI)
    fix k assume k: "k < length ?pre" and p: "prefix ?i (drop k (?pre @ ?i @ ''>>''))"
    from k obtain x xs where d: "drop k ?pre = x # xs"
      by (cases "drop k ?pre") simp_all
    then have "x \<in> set ?pre"
      by (metis in_set_dropD list.set_intros(1))
    moreover from p k d i have "x = CHR ''$''" by simp
    ultimately show False using pre by simp
  qed
  then have "indexOf ?i (?pre @ ?i @ ''>>'') = Some (length ?pre)"
    by (rule indexOf_first)
  then show ?thesis
    by (simp add: expand_status_def endMarker_def)
qed

lemma pane_shows_wrapped:
  assumes "CHR 0x22 \<notin> set ident" "CHR ''$'' \<notin> set ident"
      and "behaviour commandText = (out, n)"
  shows "pane_shows sh behaviour (buildWrapped ident commandText sh)
           = startMarker ident @ ''\<newline>'' @ out @ endMarker ident (decimal n) @ ''\<newline>''"
proof -
  have "submitted_statements (buildWrapped ident commandText sh)
          = Some (startMarker ident, commandText, endMarker ident (exit_status_idiom sh))"
    unfolding buildWrapped_def by (rule submitted_wrapped [OF markers_quote_free [OF assms(1)]])
  then show ?thesis
    by (simp add: pane_shows_def assms(3) expand_end_marker [OF assms(2)])
qed

lemma trim_pad:
  assumes "\<forall>c\<in>set ws1. is_space c" "\<forall>c\<in>set ws2. is_space c"
  shows "trim (ws1 @ out @ ws2) = trim out"
proof -
  have a: "dropWhile is_space (ws1 @ out @ ws2) = dropWhile is_space (out @ ws2)"
    using assms(1) by (intro dropWhile_append2) simp
  show ?thesis
  proof (cases "\<forall>c\<in>set out. is_space c")
    case True
    with assms(2) have "\<forall>c\<in>set (out @ ws2). is_space c" by auto
    then have "dropWhile is_space (out @ ws2) = []" by (simp only: dropWhile_eq_Nil_conv)
    moreover from True have "dropWhile is_space out = []" by (simp only: dropWhile_eq_Nil_conv)
    ultimately show ?thesis by (simp only: trim_def a)
  next
    case False
    then obtain x where "x \<in> set out" "\<not> is_space x" by blast
    then have b: "dropWhile is_space (out @ ws2) = dropWhile is_space out @ ws2"
      by (rule dropWhile_append1)
    have "dropWhile is_space (rev ws2 @ rev (dropWhile is_space out))
            = dropWhile is_space (rev (dropWhile is_space out))"
      using assms(2) by (intro dropWhile_append2) simp
    then show ?thesis
      by (simp only: trim_def a b rev_append)
  qed
qed

lemma trim_sublist: "sublist (trim s) s"
proof -
  have "suffix (dropWhile is_space s) s"
    by (rule suffix_dropWhile)
  moreover have "prefix (trim s) (dropWhile is_space s)"
    unfolding trim_def
    by (metis suffix_dropWhile suffix_to_prefix rev_rev_ident)
  ultimately show ?thesis
    by (meson prefix_imp_sublist suffix_imp_sublist sublist_order.order_trans)
qed

lemma trim_decomposition:
  "\<exists>ws1 ws2. out = ws1 @ trim out @ ws2 \<and> (\<forall>c\<in>set ws1. is_space c) \<and> (\<forall>c\<in>set ws2. is_space c)"
proof -
  let ?d = "dropWhile is_space out"
  let ?ws1 = "takeWhile is_space out"
  let ?ws2 = "rev (takeWhile is_space (rev ?d))"
  have "rev ?d = takeWhile is_space (rev ?d) @ dropWhile is_space (rev ?d)"
    by simp
  then have "rev (rev ?d) = rev (takeWhile is_space (rev ?d) @ dropWhile is_space (rev ?d))"
    by (rule arg_cong)
  then have "?d = trim out @ ?ws2"
    by (simp only: rev_rev_ident rev_append trim_def)
  then have "out = ?ws1 @ trim out @ ?ws2"
    by (metis takeWhile_dropWhile_id)
  moreover have "\<forall>c\<in>set ?ws1. is_space c"
    by (auto dest: set_takeWhileD)
  moreover have "\<forall>c\<in>set ?ws2. is_space c"
    by (auto dest: set_takeWhileD)
  ultimately show ?thesis by blast
qed

lemma trim_ends:
  "trim out = [] \<or> (\<not> is_space (hd (trim out)) \<and> \<not> is_space (last (trim out)))"
proof (cases "trim out = []")
  case True
  then show ?thesis by simp
next
  case False
  let ?d = "dropWhile is_space out"
  let ?e = "dropWhile is_space (rev ?d)"
  from False have e: "?e \<noteq> []" by (simp add: trim_def)
  then have "\<not> is_space (hd ?e)" by (rule hd_dropWhile)
  with e have l: "\<not> is_space (last (trim out))"
    by (simp add: trim_def last_rev)
  from e have d: "?d \<noteq> []" by (cases "?d = []") simp_all
  then have hd: "\<not> is_space (hd ?d)" by (rule hd_dropWhile)
  with d have "\<not> is_space (last (rev ?d))" by (simp add: last_rev)
  have "suffix ?e (rev ?d)" by (rule suffix_dropWhile)
  then obtain zs where "rev ?d = zs @ ?e" by (auto simp: suffix_def)
  then have "?d = rev ?e @ rev zs" by (metis rev_append rev_rev_ident)
  moreover from e have "rev ?e \<noteq> []" by (simp only: rev_is_Nil_conv not_False_eq_True)
  ultimately have "hd ?d = hd (rev ?e)" by (metis hd_append2)
  with hd have "\<not> is_space (hd (trim out))" by (simp add: trim_def)
  with l False show ?thesis by simp
qed

lemma trim_unchanged:
  assumes "out = [] \<or> (\<not> is_space (hd out) \<and> \<not> is_space (last out))"
  shows "trim out = out"
proof (cases "out = []")
  case True
  then show ?thesis by (simp add: trim_def)
next
  case False
  with assms have h: "\<not> is_space (hd out)" "\<not> is_space (last out)" by simp_all
  from False h(1) have a: "dropWhile is_space out = out"
    by (cases out) simp_all
  from False h(2) have "\<not> is_space (hd (rev out))"
    by (simp add: hd_rev)
  with False have "dropWhile is_space (rev out) = rev out"
    by (cases "rev out") simp_all
  with a show ?thesis by (simp add: trim_def)
qed

text \<open>
  Claim C1, as amended. A trackable command is dispatched from a world whose registry
  is in order; \<open>executeCommand\<close> sends the line \<open>buildWrapped\<close> builds and returns the
  identifier. The shell in the pane runs that line, the command printing its output
  and leaving exit status 0, so that the pane shows the start marker, the output and
  the end marker carrying 0, and a later status check captures this. Provided the
  output does not contain the end marker prefix \<open><<END:{id}:\<close> of this very command,
  \<open>parse\<close> finds the command finished with exit code 0, and the status check returns the
  record as completed with exit code 0; the output found, and stored as the result, is
  the command's output with the white space at its two ends removed: the output is
  white space, the result, and white space again, and the result neither begins nor
  ends with white space. So the result is exactly the output when the output neither
  begins nor ends with white space, and it contains nothing of the end marker.
\<close>

theorem marker_round_trip:
  assumes reg: "registry_ok w"
      and run: "executeCommand paneId commandText rawMode noEnter w = (Inr commandId, w1)"
      and trackable: "\<not> truthy rawMode" "\<not> truthy noEnter"
      and real: "behaviour commandText = (out, 0)"
      and later: "commands w2 = commands w1"
      and shown: "capture w2 paneId (captureLines w2) False =
                    Inr (pane_shows (shellType w) behaviour
                           (buildWrapped commandId commandText (shellType w)))"
      and clean: "\<not> sublist (endMarkerPrefix commandId) out"
  shows "sent w1 = sent w @ [(paneId, SendText (buildWrapped commandId commandText (shellType w)))]
       \<and> pane_shows (shellType w) behaviour (buildWrapped commandId commandText (shellType w))
           = startMarker commandId @ ''\<newline>'' @ out @ endMarker commandId ''0'' @ ''\<newline>''
       \<and> parse (pane_shows (shellType w) behaviour (buildWrapped commandId commandText (shellType w)))
            commandId
           = \<lparr>parsed_found = True, parsed_output = Some (trim out), parsed_exitCode = Some 0\<rparr>
       \<and> fst (checkCommandStatus (Some commandId) w2) =
           Inr (Some \<lparr>id_c = commandId, paneId_c = paneId, command_c = commandText,
                      startTime = clock w, status = Completed, exitCode = Some 0,
                      result = Some (trim out), rawMode_c = False\<rparr>)
       \<and> (\<exists>ws1 ws2. out = ws1 @ trim out @ ws2
              \<and> (\<forall>c\<in>set ws1. is_space c) \<and> (\<forall>c\<in>set ws2. is_space c))
       \<and> (trim out = [] \<or> (\<not> is_space (hd (trim out)) \<and> \<not> is_space (last (trim out))))
       \<and> (out = [] \<or> (\<not> is_space (hd out) \<and> \<not> is_space (last out)) \<longrightarrow> trim out = out)
       \<and> \<not> sublist (endMarkerPrefix commandId) (trim out)"
proof -
  let ?c = "\<lparr>id_c = commandId, paneId_c = paneId, command_c = commandText,
             startTime = clock w, status = Pending, exitCode = None,
             result = None, rawMode_c = False\<rparr>"
  let ?shown = "pane_shows (shellType w) behaviour (buildWrapped commandId commandText (shellType w))"
  from run trackable have ident: "commandId = ''c'' @ decimal (Suc (issued w))"
    by (auto simp: executeCommand_def Let_def split: option.splits)
  from run trackable have
    s: "sent w1 = sent w @ [(paneId, SendText (buildWrapped commandId commandText (shellType w)))]"
    and cs: "commands w1 = commands w @ [(commandId, ?c)]"
    by (auto simp: executeCommand_def Let_def split: option.splits)
  from fresh_identifier [OF reg] ident have "map_of (commands w) commandId = None"
    by simp
  with cs later have look: "map_of (commands w2) commandId = Some ?c"
    by (simp add: map_add_Some_iff)
  have plain: "CHR ''<'' \<notin> set commandId" "\<forall>c\<in>set commandId. \<not> is_space c"
    unfolding ident using identifier_plain identifier_no_space by blast+
  have quiet: "CHR 0x22 \<notin> set commandId" "CHR ''$'' \<notin> set commandId"
    unfolding ident by (rule identifier_no_quote, rule identifier_no_dollar)
  have zero: "''0'' \<noteq> []" "\<forall>c\<in>set ''0''. is_digit c" "digits_value ''0'' = 0"
    by (simp_all add: is_digit_def digits_value_def)
  have ws: "\<forall>c\<in>set ''\<newline>''. is_space c" "\<forall>c\<in>set []. is_space c"
    by (simp_all add: is_space_def)
  have "?shown = startMarker commandId @ ''\<newline>'' @ out @ endMarker commandId (decimal 0) @ ''\<newline>''"
    using quiet real by (rule pane_shows_wrapped)
  then have t: "?shown = startMarker commandId @ ''\<newline>'' @ out @ endMarker commandId ''0'' @ ''\<newline>''"
    by (simp only: decimal_0)
  have "parse (startMarker commandId @ ''\<newline>'' @ out @ [] @ endMarker commandId ''0'' @ ''\<newline>'') commandId
           = \<lparr>parsed_found = True, parsed_output = Some (trim out), parsed_exitCode = Some 0\<rparr>"
    using parse_between [OF plain ws clean zero(1,2), of "''\<newline>''"]
    by (simp only: trim_pad [OF ws] zero(3))
  then have p: "parse ?shown commandId
           = \<lparr>parsed_found = True, parsed_output = Some (trim out), parsed_exitCode = Some 0\<rparr>"
    by (simp only: t append_Nil)
  have chk: "fst (checkCommandStatus (Some commandId) w2) =
           Inr (Some \<lparr>id_c = commandId, paneId_c = paneId, command_c = commandText,
                      startTime = clock w, status = Completed, exitCode = Some 0,
                      result = Some (trim out), rawMode_c = False\<rparr>)"
    by (simp add: checkCommandStatus_def look shown p Let_def)
  have sub: "sublist (trim out) out"
    by (rule trim_sublist)
  with clean have leak: "\<not> sublist (endMarkerPrefix commandId) (trim out)"
    by (meson sublist_order.order_trans)
  have same: "out = [] \<or> (\<not> is_space (hd out) \<and> \<not> is_space (last out)) \<longrightarrow> trim out = out"
    using trim_unchanged by blast
  show ?thesis
    by (intro conjI s t p chk trim_decomposition trim_ends same leak)
qed

theorem marker_round_trip_witness:
  "registry_ok shell_world
   \<and> fst (executeCommand ''%3'' ''echo hi'' None None shell_world) = Inr ''c1''
   \<and> capture (snd (executeCommand ''%3'' ''echo hi'' None None shell_world)) ''%3'' 1000 False
       = Inr ''<<START:c1>>\<newline>hi\<newline><<END:c1:0>>\<newline>''
   \<and> \<not> sublist (endMarkerPrefix ''c1'') ''hi\<newline>''
   \<and> fst (checkCommandStatus (Some ''c1'') (snd (executeCommand ''%3'' ''echo hi'' None None shell_world)))
       = Inr (Some \<lparr>id_c = ''c1'', paneId_c = ''%3'', command_c = ''echo hi'',
                     startTime = 1000000, status = Completed, exitCode = Some 0,
                     result = Some ''hi'', rawMode_c = False\<rparr>)"
proof -
  let ?w1 = "snd (executeCommand ''%3'' ''echo hi'' None None shell_world)"
  let ?b = "\<lambda>commandText::string. (''hi\<newline>'', 0::nat)"
  have reg: "registry_ok shell_world"
    by (simp add: registry_ok_start shell_world_def example_world_def)
  have first: "fst (executeCommand ''%3'' ''echo hi'' None None shell_world) = Inr ''c1''"
    by (simp add: executeCommand_def shell_world_def example_world_def truthy_def decimal_1 Let_def)
  then have run: "executeCommand ''%3'' ''echo hi'' None None shell_world = (Inr ''c1'', ?w1)"
    by (metis prod.collapse)
  have trackable: "\<not> truthy None"
    by (simp add: truthy_def)
  have real: "?b ''echo hi'' = (''hi\<newline>'', 0)"
    by simp
  have fields: "shellType shell_world = Bash" "clock shell_world = 1000000" "captureLines ?w1 = 1000"
    by (simp_all add: executeCommand_def shell_world_def example_world_def truthy_def Let_def)
  have shown: "capture ?w1 ''%3'' (captureLines ?w1) False
                 = Inr (pane_shows (shellType shell_world) ?b
                          (buildWrapped ''c1'' ''echo hi'' (shellType shell_world)))"
    by (simp add: executeCommand_def shell_world_def example_world_def truthy_def Let_def)
  have clean: "\<not> sublist (endMarkerPrefix ''c1'') ''hi\<newline>''"
    by (simp add: endMarkerPrefix_def sublist_code)
  have lit: "startMarker ''c1'' @ ''\<newline>'' @ ''hi\<newline>'' @ endMarker ''c1'' ''0'' @ ''\<newline>''
               = ''<<START:c1>>\<newline>hi\<newline><<END:c1:0>>\<newline>''"
    by (simp add: startMarker_def endMarker_def endMarkerPrefix_def)
  have played: "pane_shows Bash ?b (buildWrapped ''c1'' ''echo hi'' Bash)
                  = ''<<START:c1>>\<newline>hi\<newline><<END:c1:0>>\<newline>''"
    by code_simp
  have tr: "trim ''hi\<newline>'' = ''hi''"
    by code_simp
  note trip = marker_round_trip [OF reg run trackable trackable real refl shown clean]
  from trip have c: "fst (checkCommandStatus (Some ''c1'') ?w1)
       = Inr (Some \<lparr>id_c = ''c1'', paneId_c = ''%3'', command_c = ''echo hi'',
                     startTime = 1000000, status = Completed, exitCode = Some 0,
                     result = Some ''hi'', rawMode_c = False\<rparr>)"
    unfolding fields tr by blast
  from shown [unfolded fields played]
  have "capture ?w1 ''%3'' 1000 False = Inr ''<<START:c1>>\<newline>hi\<newline><<END:c1:0>>\<newline>''" .
  with reg first clean c show ?thesis
    by (intro conjI)
qed

text \<open>
  The claim as stated fails in two places. A command that prints a space, \<open>hi\<close> and a
  line feed is found to have printed \<open>hi\<close>: the white space at the ends of the output is
  not recovered. And a command that prints \<open>x<<END:c1:7>>\<close> and exits with status 0 is
  found to have printed \<open>x\<close> and to have exited with status 7.
\<close>

theorem marker_round_trip_not_exact:
  "parse (pane_shows Bash (\<lambda>commandText. ('' hi\<newline>'', 0)) (buildWrapped ''c1'' ''cat note'' Bash)) ''c1''
     = \<lparr>parsed_found = True, parsed_output = Some ''hi'', parsed_exitCode = Some 0\<rparr>
   \<and> ''hi'' \<noteq> '' hi\<newline>''
   \<and> parse (pane_shows Bash (\<lambda>commandText. (''x<<END:c1:7>>\<newline>'', 0))
              (buildWrapped ''c1'' ''cat note'' Bash)) ''c1''
     = \<lparr>parsed_found = True, parsed_output = Some ''x'', parsed_exitCode = Some 7\<rparr>"
  by code_simp

subsection \<open>The command-result listing\<close>

lemma listed_entries:
  assumes "distinct (map fst (commands w))"
  shows "set al \<subseteq> set (commands w) \<Longrightarrow>
         list_entries getCommand w (map fst al) = map (\<lambda>(ident, c). command_entry ident c) al"
proof (induction al)
  case Nil
  show ?case by simp
next
  case (Cons a al)
  obtain ident c where a: "a = (ident, c)" by (cases a)
  with Cons.prems assms have "map_of (commands w) ident = Some c"
    by (simp add: map_of_is_SomeI)
  with Cons a show ?case by (simp add: getCommand_def)
qed

lemma swept_commands:
  "commands (cleanupOldCommands 10 w) =
     filter (\<lambda>(ident, c). clock w - startTime c \<le> 600000) (commands w)"
  by (auto simp: cleanupOldCommands_def too_old_def intro!: filter_cong)

lemma swept_lookup:
  assumes "distinct (map fst al)" "(k, v) \<in> set al" "\<not> P (k, v)"
  shows "map_of (filter P al) k = None"
proof -
  have "k \<notin> fst ` set (filter P al)"
  proof
    assume "k \<in> fst ` set (filter P al)"
    then obtain v' where v': "(k, v') \<in> set al" "P (k, v')" by auto
    with assms(1,2) have "v' = v" by (meson eq_key_imp_eq_value)
    with v'(2) assms(3) show False by simp
  qed
  then show ?thesis by (simp add: map_of_eq_None_iff)
qed

text \<open>
  Claim C4. Every listing of the command-result resources first sweeps the registry
  with a threshold of 10 minutes: the world it leaves is the swept world, and the
  resources listed are exactly those of the commands started at most 10 minutes
  (600000 ms) before, whatever their status, in registry order. For every command the
  registry held that was started earlier than that, a status request after the listing
  finds nothing and answers \<open>Command not found\<close>.
\<close>

theorem listing_sweeps_first:
  assumes "registry_ok w"
  shows "snd (command_result_list cleanupOldCommands getActiveCommandIds getCommand w)
           = cleanupOldCommands 10 w
       \<and> fst (command_result_list cleanupOldCommands getActiveCommandIds getCommand w)
           = map (\<lambda>(ident, c). command_entry ident c)
               (filter (\<lambda>(ident, c). clock w - startTime c \<le> 600000) (commands w))
       \<and> (\<forall>(ident, c) \<in> set (commands w). 600000 < clock w - startTime c \<longrightarrow>
             checkCommandStatus (Some ident) (cleanupOldCommands 10 w)
               = (Inr None, cleanupOldCommands 10 w)
             \<and> content_text (fst (get_command_result_tool checkCommandStatus toISO ident
                   (cleanupOldCommands 10 w))) = ''Command not found: '' @ ident)"
proof -
  let ?w' = "cleanupOldCommands 10 w"
  from assms have ok': "registry_ok ?w'" by (rule registry_ok_cleanup)
  then have d': "distinct (map fst (commands ?w'))" by (simp add: registry_ok_def)
  have a: "snd (command_result_list cleanupOldCommands getActiveCommandIds getCommand w) = ?w'"
    by (simp add: command_result_list_def Let_def)
  have "fst (command_result_list cleanupOldCommands getActiveCommandIds getCommand w)
          = list_entries getCommand ?w' (map fst (commands ?w'))"
    by (simp add: command_result_list_def Let_def getActiveCommandIds_def)
  also have "\<dots> = map (\<lambda>(ident, c). command_entry ident c) (commands ?w')"
    by (rule listed_entries [OF d']) simp
  finally have b: "fst (command_result_list cleanupOldCommands getActiveCommandIds getCommand w)
           = map (\<lambda>(ident, c). command_entry ident c)
               (filter (\<lambda>(ident, c). clock w - startTime c \<le> 600000) (commands w))"
    by (simp only: swept_commands)
  have c: "checkCommandStatus (Some ident) ?w' = (Inr None, ?w')
           \<and> content_text (fst (get_command_result_tool checkCommandStatus toISO ident ?w'))
               = ''Command not found: '' @ ident"
    if "(ident, c) \<in> set (commands w)" "600000 < clock w - startTime c" for ident c
  proof -
    from assms have "distinct (map fst (commands w))" by (simp add: registry_ok_def)
    from swept_lookup [OF this that(1), of "\<lambda>(ident, c). clock w - startTime c \<le> 600000"] that(2)
    have "map_of (commands ?w') ident = None"
      by (simp add: swept_commands)
    then have "checkCommandStatus (Some ident) ?w' = (Inr None, ?w')"
      by (simp add: checkCommandStatus_def)
    then show ?thesis by (simp add: get_command_result_tool_def)
  qed
  from a b c show ?thesis by blast
qed

theorem listing_sweeps_first_witness:
  "registry_ok aged_world
   \<and> fst (command_result_list cleanupOldCommands getActiveCommandIds getCommand aged_world)
       = [\<lparr>entry_name = ''Command: ls'', entry_uri = ''tmux://command/c2/result'',
           entry_description = ''Execution status: pending''\<rparr>]
   \<and> content_text (fst (get_command_result_tool checkCommandStatus (\<lambda>t. []) ''c1''
         (snd (command_result_list cleanupOldCommands getActiveCommandIds getCommand aged_world))))
       = ''Command not found: c1''"
proof -
  have ids: "issued_ids aged_world = [''c1'', ''c2'']"
    by (simp add: issued_ids_def aged_world_def example_world_def upt_rec decimal.simps digit_char_def)
       code_simp
  have ok: "registry_ok aged_world"
    by (simp add: registry_ok_def ids) (simp add: aged_world_def)
  from listing_sweeps_first [OF ok, of "\<lambda>t. []"] ok
  show ?thesis
    by (simp add: aged_world_def example_world_def command_entry_def)
qed

subsection \<open>Git worktrees\<close>

lemma runGit_log:
  "invocations (snd (runGit git r args s)) = invocations s @ [[''-C'', r] @ args]"
  by (simp add: runGit_def Let_def split: prod.splits sum.splits)

lemma resolveRepoPath_log:
  "invocations (snd (resolveRepoPath P git r s))
     = invocations s @ [[''-C'', normalize P r, ''rev-parse'', ''--show-toplevel'']]"
proof -
  have "invocations (snd (resolveRepoPath P git r s))
          = invocations (snd (runGit git (normalize P r) [''rev-parse'', ''--show-toplevel''] s))"
    by (simp add: resolveRepoPath_def Let_def split: prod.splits sum.splits)
  then show ?thesis
    by (simp add: runGit_log)
qed

lemma listWorktrees_log:
  assumes "listWorktrees P git r s = (Inr worktrees, s2)"
  shows "\<exists>root. invocations s2
           = invocations s @ [[''-C'', normalize P r, ''rev-parse'', ''--show-toplevel''],
                              [''-C'', root, ''worktree'', ''list'', ''--porcelain'']]"
proof (cases "resolveRepoPath P git r s")
  case (Pair a s1)
  note log = resolveRepoPath_log [of P git r s, unfolded Pair, simplified]
  show ?thesis
  proof (cases a)
    case (Inl e)
    with Pair assms show ?thesis by (simp add: listWorktrees_def)
  next
    case (Inr root)
    with Pair assms have "s2 = snd (runGit git root [''worktree'', ''list'', ''--porcelain''] s1)"
      by (auto simp: listWorktrees_def split: prod.splits sum.splits)
    then have "invocations s2
           = invocations s @ [[''-C'', normalize P r, ''rev-parse'', ''--show-toplevel''],
                              [''-C'', root, ''worktree'', ''list'', ''--porcelain'']]"
      by (simp add: runGit_log log)
    then show ?thesis by blast
  qed
qed

lemma reads_log:
  assumes "resolveRepoPath P git r s = (a, s1)" "listWorktrees P git r' s1 = (Inr worktrees, s2)"
  shows "\<exists>root. invocations s2
           = invocations s @ [[''-C'', normalize P r, ''rev-parse'', ''--show-toplevel''],
                              [''-C'', normalize P r', ''rev-parse'', ''--show-toplevel''],
                              [''-C'', root, ''worktree'', ''list'', ''--porcelain'']]"
  using resolveRepoPath_log [of P git r s] listWorktrees_log [OF assms(2)] assms(1) by simp

lemma small_first_call:
  "ensureWorktree small_paths small_git feat_options small_start =
     (Inr \<lparr>result_repoPath = ''/repo'', result_worktreePath = ''/wt/feat'',
            result_branch = ''feat'', created = True, existingWorktree = None\<rparr>,
      \<lparr>repository = [(''/repo'', ''main''), (''/wt/feat'', ''feat'')],
        invocations =
          [[''-C'', ''/repo'', ''rev-parse'', ''--show-toplevel''],
           [''-C'', ''/repo'', ''rev-parse'', ''--show-toplevel''],
           [''-C'', ''/repo'', ''worktree'', ''list'', ''--porcelain''],
           [''-C'', ''/repo'', ''worktree'', ''add'', ''/wt/feat'', ''feat'']]\<rparr>)"
  by code_simp

lemma trim_empty_iff: "trim s = [] \<longleftrightarrow> (\<forall>c\<in>set s. is_space c)"
proof -
  have "trim s = [] \<longleftrightarrow> (\<forall>c\<in>set (dropWhile is_space s). is_space c)"
    by (simp add: trim_def dropWhile_eq_Nil_conv)
  also have "\<dots> \<longleftrightarrow> dropWhile is_space s = []"
    by (metis hd_dropWhile hd_in_set empty_iff list.set(1))
  also have "\<dots> \<longleftrightarrow> (\<forall>c\<in>set s. is_space c)"
    by (simp add: dropWhile_eq_Nil_conv)
  finally show ?thesis .
qed

lemma passes_checks:
  assumes "\<exists>c\<in>set (branchName options). \<not> is_space c"
      and "createBranch options = Some True \<or> baseRef options = None \<or> baseRef options = Some []"
  shows "trim (branchName options) \<noteq> []"
    and "\<not> (\<not> truthy (createBranch options) \<and> truthy_string (baseRef options))"
  using assms by (auto simp: trim_empty_iff truthy_def truthy_string_def)

lemma runGit_repository:
  "snd (git ([''-C'', r] @ args) (repository s)) = repository s \<Longrightarrow>
   repository (snd (runGit git r args s)) = repository s"
  by (auto simp: runGit_def Let_def split: prod.splits sum.splits)

lemma resolveRepoPath_repository:
  assumes "queries_read_only git"
  shows "repository (snd (resolveRepoPath P git r s)) = repository s"
proof -
  have "repository (snd (resolveRepoPath P git r s))
          = repository (snd (runGit git (normalize P r) [''rev-parse'', ''--show-toplevel''] s))"
    by (simp add: resolveRepoPath_def Let_def split: prod.splits sum.splits)
  also have "\<dots> = repository s"
    using assms by (intro runGit_repository) (simp add: queries_read_only_def)
  finally show ?thesis .
qed

lemma listWorktrees_repository:
  assumes "queries_read_only git"
  shows "repository (snd (listWorktrees P git r s)) = repository s"
proof (cases "resolveRepoPath P git r s")
  case (Pair a s1)
  note r = resolveRepoPath_repository [OF assms, of P r s, unfolded Pair, simplified]
  show ?thesis
  proof (cases a)
    case (Inl e)
    with Pair r show ?thesis by (simp add: listWorktrees_def)
  next
    case (Inr root)
    have "repository (snd (listWorktrees P git r s))
            = repository (snd (runGit git root [''worktree'', ''list'', ''--porcelain''] s1))"
      using Pair Inr by (simp add: listWorktrees_def split: prod.splits sum.splits)
    also have "\<dots> = repository s1"
      using assms by (intro runGit_repository) (simp add: queries_read_only_def)
    finally show ?thesis using r by simp
  qed
qed

lemma reads_change_nothing:
  assumes "queries_read_only git"
      and "resolveRepoPath P git r s = (a, s1)" "listWorktrees P git r' s1 = (b, s2)"
  shows "repository s2 = repository s"
  using resolveRepoPath_repository [OF assms(1), of P r s]
        listWorktrees_repository [OF assms(1), of P r' s1] assms(2,3) by simp

lemma small_git_reads: "queries_read_only small_git"
  by (simp add: queries_read_only_def small_git_def)




text \<open>
  Claim C9, as amended. \<open>ensureWorktree\<close> throws, and git is started for no
  \<open>worktree add\<close>, (1) when \<open>branchName\<close> is empty or white space only, (2) when a
  non-empty \<open>baseRef\<close> comes without \<open>createBranch\<close> being true, in both cases before git
  is started at all, so that nothing has changed, and (3) when, the root resolved and
  the worktrees listed, no worktree lies at the candidate path, some listed worktree
  has as its branch, in the short form \<open>listWorktrees\<close> gives it, exactly the text
  \<open>branchName\<close>, and \<open>force\<close> is not set. In case (3) git has been started three times,
  twice for \<open>rev-parse --show-toplevel\<close> and once for \<open>worktree list --porcelain\<close>; these
  two read the repository, and with a git that leaves it as it is on them the
  repository is unchanged. The candidate path is the explicit \<open>worktreePath\<close>, resolved
  against the root when it is relative, or else \<open>../{branchName}\<close> from the root.
\<close>

theorem ensureWorktree_validates_first:
  "((\<forall>c\<in>set (branchName options). is_space c) \<longrightarrow>
      ensureWorktree P git options s = (Inl (JsError ''branchName is required''), s))
   \<and> ((\<exists>c\<in>set (branchName options). \<not> is_space c) \<and> createBranch options \<noteq> Some True
        \<and> baseRef options = Some base \<and> base \<noteq> [] \<longrightarrow>
      ensureWorktree P git options s =
        (Inl (JsError ''baseRef can only be used when createBranch is true''), s))
   \<and> ((\<exists>c\<in>set (branchName options). \<not> is_space c)
        \<and> (createBranch options = Some True \<or> baseRef options = None \<or> baseRef options = Some [])
        \<and> resolveRepoPath P git (repoPath options) s = (Inr repoRoot, s1)
        \<and> listWorktrees P git repoRoot s1 = (Inr worktrees, s2)
        \<and> find (\<lambda>entry. normalize P (path entry) = candidatePath P repoRoot options) worktrees = None
        \<and> find (\<lambda>entry. branch entry = Some (branchName options)) worktrees = Some branchInUse
        \<and> force options \<noteq> Some True \<longrightarrow>
      ensureWorktree P git options s =
        (Inl (JsError (''Branch '' @ branchName options @ '' is already checked out at ''
                @ path branchInUse
                @ ''. Use force=true to reuse the branch or choose a different branch name.'')),
         s2)
      \<and> (\<exists>root. invocations s2 =
             invocations s @ [[''-C'', normalize P (repoPath options), ''rev-parse'', ''--show-toplevel''],
                              [''-C'', normalize P repoRoot, ''rev-parse'', ''--show-toplevel''],
                              [''-C'', root, ''worktree'', ''list'', ''--porcelain'']])
      \<and> (queries_read_only git \<longrightarrow> repository s2 = repository s))
   \<and> candidatePath P repoRoot options =
         (case worktreePath options of
            Some wp \<Rightarrow>
              if wp \<noteq> [] then
                (if isAbsolute P wp then normalize P wp
                 else normalize P (resolve P [repoRoot, wp]))
              else normalize P (resolve P [repoRoot, ''..'', branchName options])
          | None \<Rightarrow> normalize P (resolve P [repoRoot, ''..'', branchName options]))"
proof (intro conjI impI)
  show "candidatePath P repoRoot options =
         (case worktreePath options of
            Some wp \<Rightarrow>
              if wp \<noteq> [] then
                (if isAbsolute P wp then normalize P wp
                 else normalize P (resolve P [repoRoot, wp]))
              else normalize P (resolve P [repoRoot, ''..'', branchName options])
          | None \<Rightarrow> normalize P (resolve P [repoRoot, ''..'', branchName options]))"
    by (simp add: candidatePath_def)
next
  assume "\<forall>c\<in>set (branchName options). is_space c"
  then have "trim (branchName options) = []"
    by (simp add: trim_empty_iff)
  then show "ensureWorktree P git options s = (Inl (JsError ''branchName is required''), s)"
    by (simp add: ensureWorktree_def)
next
  assume a: "(\<exists>c\<in>set (branchName options). \<not> is_space c) \<and> createBranch options \<noteq> Some True
        \<and> baseRef options = Some base \<and> base \<noteq> []"
  then have "trim (branchName options) \<noteq> []"
    by (simp add: trim_empty_iff)
  with a show "ensureWorktree P git options s =
        (Inl (JsError ''baseRef can only be used when createBranch is true''), s)"
    by (simp add: ensureWorktree_def truthy_def truthy_string_def)
next
  assume a: "(\<exists>c\<in>set (branchName options). \<not> is_space c)
        \<and> (createBranch options = Some True \<or> baseRef options = None \<or> baseRef options = Some [])
        \<and> resolveRepoPath P git (repoPath options) s = (Inr repoRoot, s1)
        \<and> listWorktrees P git repoRoot s1 = (Inr worktrees, s2)
        \<and> find (\<lambda>entry. normalize P (path entry) = candidatePath P repoRoot options) worktrees = None
        \<and> find (\<lambda>entry. branch entry = Some (branchName options)) worktrees = Some branchInUse
        \<and> force options \<noteq> Some True"
  then have v: "trim (branchName options) \<noteq> []"
      "\<not> (\<not> truthy (createBranch options) \<and> truthy_string (baseRef options))"
    using passes_checks [of options] by blast+
  from a have "branchInUse \<in> set worktrees"
    by (auto simp: find_Some_iff)
  with a have elsewhere: "normalize P (path branchInUse) \<noteq> candidatePath P repoRoot options"
    by (auto simp: find_None_iff)
  with a have "blocking_worktree P (candidatePath P repoRoot options) options worktrees
                 = Some branchInUse"
    by (simp add: blocking_worktree_def truthy_def)
  with a v show "ensureWorktree P git options s =
        (Inl (JsError (''Branch '' @ branchName options @ '' is already checked out at ''
                @ path branchInUse
                @ ''. Use force=true to reuse the branch or choose a different branch name.'')),
         s2)"
    by (simp add: ensureWorktree_def Let_def)
  from a show "\<exists>root. invocations s2 =
             invocations s @ [[''-C'', normalize P (repoPath options), ''rev-parse'', ''--show-toplevel''],
                              [''-C'', normalize P repoRoot, ''rev-parse'', ''--show-toplevel''],
                              [''-C'', root, ''worktree'', ''list'', ''--porcelain'']]"
    by (meson reads_log)
  assume "queries_read_only git"
  with a show "repository s2 = repository s"
    by (meson reads_change_nothing)
qed

theorem ensureWorktree_validates_first_witness:
  "ensureWorktree small_paths small_git (feat_options\<lparr>branchName := [CHR 0x20, CHR 0xA0, CHR 0x09]\<rparr>)
       small_start
     = (Inl (JsError ''branchName is required''), small_start)
   \<and> ensureWorktree small_paths small_git (feat_options\<lparr>baseRef := Some ''main''\<rparr>) small_start
     = (Inl (JsError ''baseRef can only be used when createBranch is true''), small_start)
   \<and> fst (ensureWorktree small_paths small_git (feat_options\<lparr>worktreePath := Some ''/wt/z''\<rparr>) crowded)
     = Inl (JsError ''Branch feat is already checked out at /wt/x. Use force=true to reuse the branch or choose a different branch name.'')
   \<and> invocations
        (snd (ensureWorktree small_paths small_git (feat_options\<lparr>worktreePath := Some ''/wt/z''\<rparr>) crowded))
     = [[''-C'', ''/repo'', ''rev-parse'', ''--show-toplevel''],
        [''-C'', ''/repo'', ''rev-parse'', ''--show-toplevel''],
        [''-C'', ''/repo'', ''worktree'', ''list'', ''--porcelain'']]
   \<and> repository
        (snd (ensureWorktree small_paths small_git (feat_options\<lparr>worktreePath := Some ''/wt/z''\<rparr>) crowded))
     = repository crowded"
proof -
  let ?blank = "feat_options\<lparr>branchName := [CHR 0x20, CHR 0xA0, CHR 0x09]\<rparr>"
  let ?o = "feat_options\<lparr>worktreePath := Some ''/wt/z''\<rparr>"
  let ?s1 = "snd (resolveRepoPath small_paths small_git (repoPath ?o) crowded)"
  let ?s2 = "snd (listWorktrees small_paths small_git ''/repo'' ?s1)"
  let ?wt = "\<lambda>p b. \<lparr>path = p, head = Some ''0000000'', branch = Some b,
                bare = None, detached = None, locked = None, prunable = None\<rparr>"
  let ?wts = "[?wt ''/repo'' ''main'', ?wt ''/wt/x'' ''feat'', ?wt ''/wt/y'' ''other'']"
  have blank: "\<forall>c\<in>set (branchName ?blank). is_space c"
    by code_simp
  have base: "(\<exists>c\<in>set (branchName (feat_options\<lparr>baseRef := Some ''main''\<rparr>)). \<not> is_space c)
               \<and> createBranch (feat_options\<lparr>baseRef := Some ''main''\<rparr>) \<noteq> Some True
               \<and> baseRef (feat_options\<lparr>baseRef := Some ''main''\<rparr>) = Some ''main'' \<and> ''main'' \<noteq> []"
    by code_simp
  have third: "(\<exists>c\<in>set (branchName ?o). \<not> is_space c)
        \<and> (createBranch ?o = Some True \<or> baseRef ?o = None \<or> baseRef ?o = Some [])
        \<and> resolveRepoPath small_paths small_git (repoPath ?o) crowded = (Inr ''/repo'', ?s1)
        \<and> listWorktrees small_paths small_git ''/repo'' ?s1 = (Inr ?wts, ?s2)
        \<and> find (\<lambda>entry. normalize small_paths (path entry) = candidatePath small_paths ''/repo'' ?o) ?wts = None
        \<and> find (\<lambda>entry. branch entry = Some (branchName ?o)) ?wts = Some (?wt ''/wt/x'' ''feat'')
        \<and> force ?o \<noteq> Some True"
    by code_simp
  have log: "invocations ?s2
     = [[''-C'', ''/repo'', ''rev-parse'', ''--show-toplevel''],
        [''-C'', ''/repo'', ''rev-parse'', ''--show-toplevel''],
        [''-C'', ''/repo'', ''worktree'', ''list'', ''--porcelain'']]"
    by code_simp
  from ensureWorktree_validates_first [of ?blank small_paths small_git small_start] blank
  have a: "ensureWorktree small_paths small_git ?blank small_start
     = (Inl (JsError ''branchName is required''), small_start)"
    by blast
  from ensureWorktree_validates_first
         [of "feat_options\<lparr>baseRef := Some ''main''\<rparr>" small_paths small_git small_start "''main''"]
       base
  have b: "ensureWorktree small_paths small_git (feat_options\<lparr>baseRef := Some ''main''\<rparr>) small_start
     = (Inl (JsError ''baseRef can only be used when createBranch is true''), small_start)"
    by blast
  from ensureWorktree_validates_first
         [of ?o small_paths small_git crowded _ "''/repo''" ?s1 ?wts ?s2 "?wt ''/wt/x'' ''feat''"]
       third small_git_reads
  have c: "ensureWorktree small_paths small_git ?o crowded =
        (Inl (JsError (''Branch '' @ branchName ?o @ '' is already checked out at ''
                @ path (?wt ''/wt/x'' ''feat'')
                @ ''. Use force=true to reuse the branch or choose a different branch name.'')),
         ?s2)
      \<and> repository ?s2 = repository crowded"
    by blast
  from a b c log show ?thesis
    by (simp add: feat_options_def)
qed

text \<open>
  The claim as stated fails in three places. With a worktree already at the candidate
  path, the call returns it with \<open>created: false\<close> although the branch is checked out at
  another path and \<open>force\<close> is not set. An empty \<open>baseRef\<close> without \<open>createBranch\<close> counts
  as no \<open>baseRef\<close>: the worktree is created. And a branch named in full,
  \<open>refs/heads/feat\<close>, is not recognized as the branch \<open>feat\<close> that is checked out at
  another path: \<open>git worktree add\<close> is started.
\<close>

theorem ensureWorktree_succeeds_despite:
  "fst (ensureWorktree small_paths small_git (feat_options\<lparr>worktreePath := Some ''/wt/y''\<rparr>) crowded)
     = Inr \<lparr>result_repoPath = ''/repo'', result_worktreePath = ''/wt/y'',
            result_branch = ''other'', created = False,
            existingWorktree =
              Some \<lparr>path = ''/wt/y'', head = Some ''0000000'', branch = Some ''other'',
                    bare = None, detached = None, locked = None, prunable = None\<rparr>\<rparr>
   \<and> fst (ensureWorktree small_paths small_git (feat_options\<lparr>baseRef := Some []\<rparr>) small_start)
     = Inr \<lparr>result_repoPath = ''/repo'', result_worktreePath = ''/wt/feat'',
            result_branch = ''feat'', created = True, existingWorktree = None\<rparr>
   \<and> invocations (snd (ensureWorktree small_paths small_git
        (feat_options\<lparr>branchName := ''refs/heads/feat'', worktreePath := Some ''/wt/z''\<rparr>) crowded))
     = [[''-C'', ''/repo'', ''rev-parse'', ''--show-toplevel''],
        [''-C'', ''/repo'', ''rev-parse'', ''--show-toplevel''],
        [''-C'', ''/repo'', ''worktree'', ''list'', ''--porcelain''],
        [''-C'', ''/repo'', ''worktree'', ''add'', ''/wt/z'', ''refs/heads/feat'']]"
  by code_simp

subsection \<open>The launch-agent-pane tool\<close>

lemma range_upper: "\<forall>n\<in>set [65..<Suc 90]. char_of (n::nat) \<in> set letters"
  by code_simp

lemma range_lower: "\<forall>n\<in>set [97..<Suc 122]. char_of (n::nat) \<in> set letters"
  by code_simp

lemma range_digit: "\<forall>n\<in>set [48..<Suc 57]. char_of (n::nat) \<in> set ''0123456789''"
  by code_simp

lemma letters_codes:
  "\<forall>c\<in>set letters. (65 \<le> (of_char c :: nat) \<and> (of_char c :: nat) \<le> 90)
                      \<or> (97 \<le> (of_char c :: nat) \<and> (of_char c :: nat) \<le> 122)"
  by code_simp

lemma digits_codes: "\<forall>c\<in>set ''0123456789''. is_digit c"
  by code_simp

lemma in_range: "a \<le> n \<Longrightarrow> n \<le> b \<Longrightarrow> (n::nat) \<in> set [a..<Suc b]"
  by (simp only: set_upt atLeastLessThan_iff less_Suc_eq_le)

lemma is_name_start_iff: "is_name_start c = (c \<in> set (letters @ ''_''))"
proof
  assume "is_name_start c"
  then consider "65 \<le> (of_char c :: nat)" "(of_char c :: nat) \<le> 90"
    | "97 \<le> (of_char c :: nat)" "(of_char c :: nat) \<le> 122" | "c = CHR ''_''"
    by (auto simp: is_name_start_def)
  then show "c \<in> set (letters @ ''_'')"
  proof cases
    case 1
    then have "(of_char c :: nat) \<in> set [65..<Suc 90]" by (rule in_range)
    with range_upper have "char_of (of_char c :: nat) \<in> set letters" by blast
    then show ?thesis by simp
  next
    case 2
    then have "(of_char c :: nat) \<in> set [97..<Suc 122]" by (rule in_range)
    with range_lower have "char_of (of_char c :: nat) \<in> set letters" by blast
    then show ?thesis by simp
  next
    case 3
    then show ?thesis by simp
  qed
next
  assume "c \<in> set (letters @ ''_'')"
  then have "c \<in> set letters \<or> c = CHR ''_''" by auto
  then show "is_name_start c"
    using letters_codes by (auto simp: is_name_start_def)
qed

lemma is_digit_iff: "is_digit c = (c \<in> set ''0123456789'')"
proof
  assume "is_digit c"
  then have "(of_char c :: nat) \<in> set [48..<Suc 57]" by (simp only: is_digit_def in_range)
  with range_digit have "char_of (of_char c :: nat) \<in> set ''0123456789''" by blast
  then show "c \<in> set ''0123456789''" by simp
next
  assume "c \<in> set ''0123456789''"
  with digits_codes show "is_digit c" by blast
qed

lemma is_name_char_iff: "is_name_char c = (c \<in> set (letters @ ''_'' @ ''0123456789''))"
  unfolding is_name_char_def is_name_start_iff is_digit_iff
  by (simp only: set_append Un_iff disj_assoc)

lemma env_key_matches_iff:
  "env_key_matches key =
     (key \<noteq> [] \<and> hd key \<in> set (letters @ ''_'')
      \<and> set (tl key) \<subseteq> set (letters @ ''_'' @ ''0123456789''))"
proof (cases key)
  case Nil
  then show ?thesis by simp
next
  case (Cons c cs)
  then show ?thesis
    unfolding Cons env_key_matches.simps is_name_start_iff list_all_iff is_name_char_iff
    by (simp only: list.sel list.distinct subset_eq simp_thms)
qed

lemma buildExportCommand_eq:
  "buildExportCommand key v =
     (if env_key_matches key
      then Inr (''export '' @ key @ ''='' @ [CHR 0x22] @ escape_quotes v @ [CHR 0x22])
      else Inl (JsError (''Invalid environment variable name: '' @ key)))"
  by (simp add: buildExportCommand_def validateEnvKey_def)

lemma escape_quotes_map:
  "escape_quotes v = concat (map (\<lambda>c. if c = CHR 0x22 \<or> c = CHR 0x5C then [CHR 0x5C, c] else [c]) v)"
  by (induction v) auto

lemma unescape_escape: "unescape (escape_quotes v) = v"
proof (induction v)
  case Nil
  show ?case by simp
next
  case (Cons c cs)
  show ?case
  proof (cases "c = CHR 0x22 \<or> c = CHR 0x5C")
    case True
    with Cons show ?thesis by auto
  next
    case False
    with Cons show ?thesis by (cases "escape_quotes cs") auto
  qed
qed

lemma quotes_escaped:
  "i < length (escape_quotes v) \<Longrightarrow> escape_quotes v ! i = CHR 0x22 \<Longrightarrow>
   0 < i \<and> escape_quotes v ! (i - 1) = CHR 0x5C"
proof (induction v arbitrary: i)
  case Nil
  then show ?case by simp
next
  case (Cons c cs)
  show ?case
  proof (cases "c = CHR 0x22 \<or> c = CHR 0x5C")
    case True
    then have e: "escape_quotes (c # cs) = CHR 0x5C # c # escape_quotes cs" by simp
    show ?thesis
    proof (cases i)
      case 0
      with Cons.prems e show ?thesis by simp
    next
      case (Suc j)
      show ?thesis
      proof (cases j)
        case 0
        with Suc e show ?thesis by simp
      next
        case (Suc k)
        with \<open>i = Suc j\<close> Cons.prems e have "k < length (escape_quotes cs)" "escape_quotes cs ! k = CHR 0x22"
          by simp_all
        from Cons.IH [OF this] \<open>i = Suc j\<close> Suc e show ?thesis
          by (cases k) simp_all
      qed
    qed
  next
    case False
    then have e: "escape_quotes (c # cs) = c # escape_quotes cs" by simp
    show ?thesis
    proof (cases i)
      case 0
      with Cons.prems e False show ?thesis by simp
    next
      case (Suc j)
      with Cons.prems e have "j < length (escape_quotes cs)" "escape_quotes cs ! j = CHR 0x22"
        by simp_all
      from Cons.IH [OF this] Suc e show ?thesis
        by (cases j) simp_all
    qed
  qed
qed

lemma isl_bind_left: "isl (fst (m w)) \<Longrightarrow> isl (fst (io_bind m f w))"
  by (cases "m w"; cases "fst (m w)") (auto simp: io_bind_def)

lemma isl_bind: "(\<And>x w'. isl (fst (f x w'))) \<Longrightarrow> isl (fst (io_bind m f w))"
  by (cases "m w"; cases "fst (m w)") (auto simp: io_bind_def)

lemma export_loop_sends:
  "env_key_matches key \<Longrightarrow>
   export_loop D newPaneId ((key, v) # rest) operations =
     io_bind (sendKeysToPane D newPaneId
                (''export '' @ key @ ''='' @ [CHR 0x22] @ escape_quotes v @ [CHR 0x22]))
       (\<lambda>sent. export_loop D newPaneId rest (operations @ [''Exported '' @ key]))"
  by (simp add: buildExportCommand_eq)

lemma export_loop_stops:
  assumes "\<not> env_key_matches key"
  shows "list_all (\<lambda>(k, v). env_key_matches k) before \<Longrightarrow>
         export_loop D newPaneId (before @ (key, v) # rest) operations w =
           (case export_loop D newPaneId before operations w of
              (Inl error, w') \<Rightarrow> (Inl error, w')
            | (Inr done, w') \<Rightarrow>
                (Inl (JsError (''Invalid environment variable name: '' @ key)), w'))"
proof (induction before arbitrary: operations w)
  case Nil
  with assms show ?case
    by (simp add: buildExportCommand_eq io_throw_def io_return_def)
next
  case (Cons a before)
  obtain k u where a: "a = (k, u)" by (cases a)
  with Cons.prems have k: "env_key_matches k" and rest: "list_all (\<lambda>(k, v). env_key_matches k) before"
    by simp_all
  show ?case
  proof (cases "sendKeysToPane D newPaneId
                  (''export '' @ k @ ''='' @ [CHR 0x22] @ escape_quotes u @ [CHR 0x22]) w")
    case (Pair r w1)
    then show ?thesis
      using Cons.IH [OF rest] k a
      by (cases r) (simp_all add: buildExportCommand_eq io_bind_def)
  qed
qed

lemma export_loop_fails:
  "\<not> list_all (\<lambda>(k, v). env_key_matches k) entries \<Longrightarrow>
   isl (fst (export_loop D newPaneId entries operations w))"
proof (induction entries arbitrary: operations w)
  case Nil
  then show ?case by simp
next
  case (Cons a entries)
  obtain k u where a: "a = (k, u)" by (cases a)
  show ?case
  proof (cases "env_key_matches k")
    case False
    with a show ?thesis by (simp add: buildExportCommand_eq io_throw_def)
  next
    case True
    with Cons.prems a have "\<not> list_all (\<lambda>(k, v). env_key_matches k) entries" by simp
    then have "\<And>x w'. isl (fst (export_loop D newPaneId entries (operations @ [''Exported '' @ k]) w'))"
      by (rule Cons.IH)
    then show ?thesis
      unfolding a export_loop_sends [OF True] by (rule isl_bind)
  qed
qed

lemma finish_steps_fail:
  assumes "environment input = Some entries" "\<not> list_all (\<lambda>(k, v). env_key_matches k) entries"
  shows "isl (fst (finish_steps D input newPaneId dir operations w))"
proof -
  have env: "isl (fst (io_bind (environment_step D input p ops) f w'))" for p ops f w'
    by (rule isl_bind_left) (simp add: environment_step_def assms export_loop_fails)
  show ?thesis
    unfolding finish_steps_def by (rule isl_bind) (rule env)
qed

lemma prepare_steps_fail:
  assumes "environment input = Some entries" "\<not> list_all (\<lambda>(k, v). env_key_matches k) entries"
  shows "isl (fst (prepare_steps D input dir targetPane newPaneId w))"
  unfolding prepare_steps_def Let_def
  by (intro isl_bind) (simp add: finish_steps_fail [OF assms] split: prod.splits)

lemma launch_steps_fail:
  assumes "environment input = Some entries" "\<not> list_all (\<lambda>(k, v). env_key_matches k) entries"
  shows "isl (fst (launch_steps D input w))"
  unfolding launch_steps_def Let_def
  by (intro isl_bind)
     (simp add: io_throw_def prepare_steps_fail [OF assms] split: option.splits)

lemma launch_agent_pane_fails:
  assumes "environment input = Some entries" "\<not> list_all (\<lambda>(k, v). env_key_matches k) entries"
  shows "isError (fst (launch_agent_pane D input w))"
proof -
  from launch_steps_fail [OF assms, of D w] obtain e w' where "launch_steps D input w = (Inl e, w')"
    by (cases "launch_steps D input w"; cases "fst (launch_steps D input w)") auto
  then show ?thesis by (simp add: launch_agent_pane_def)
qed

lemma cd_step_sends:
  "dir \<noteq> [] \<Longrightarrow>
   cd_step D newPaneId (Some dir) operations =
     io_bind (sendKeysToPane D newPaneId (''cd '' @ [CHR 0x22] @ escape_quotes dir @ [CHR 0x22]))
       (\<lambda>sent. io_return (operations @ [''Changed directory to '' @ dir]))"
  by (simp add: cd_step_def truthy_string_def template_string_def buildCdCommand_def)

lemma bad_run:
  "launch_agent_pane recording bad_input [] =
     (\<lparr>content_text = ''Error launching agent pane: Error: Invalid environment variable name: BAD KEY'',
       isError = True\<rparr>,
      [(''%9'', ''cd '' @ [CHR 0x22] @ ''/tmp/a'' @ [CHR 0x5C, CHR 0x22] @ ''b'' @ [CHR 0x22]),
       (''%9'', ''export API_KEY='' @ [CHR 0x22] @ ''x'' @ [CHR 0x5C, CHR 0x5C] @ ''y'' @ [CHR 0x22])])"
  by code_simp



end
